theory Spec2Isabelle
  imports Main "HOL-Library.Word"
begin

section \<open>The symbol record behind the wrapper\<close>

text \<open>
  \<^verbatim>\<open>symbol.c\<close> wraps a \<^verbatim>\<open>struct drgn_symbol *\<close> in a Python object. The struct and its
  readers \<^verbatim>\<open>drgn_symbol_name\<close>, \<^verbatim>\<open>drgn_symbol_address\<close>, \<^verbatim>\<open>drgn_symbol_size\<close>,
  \<^verbatim>\<open>drgn_symbol_binding\<close> and \<^verbatim>\<open>drgn_symbol_kind\<close> are declared in \<^verbatim>\<open>drgnpy.h\<close> and its
  includes, which are not among the sources.
\<close>

type_synonym addr = nat

text \<open>
  The numeric code of an enumerator of \<^verbatim>\<open>enum drgn_symbol_binding\<close> or
  \<^verbatim>\<open>enum drgn_symbol_kind\<close>, as an unsigned C integer.
\<close>

type_synonym enum_code = "32 word"

text \<open>
  Modelled from the spec: \<^verbatim>\<open>struct drgn_symbol\<close> and its five readers, which are missing
  from the sources. The spec's Symbol Record has exactly the fields name, address (64-bit
  unsigned), size (64-bit unsigned), binding and kind; each reader returns its field, so
  the record's selectors carry the readers' names. \<open>drgn_symbol_name\<close> holds the bytes of
  the NUL-terminated C string before its terminator.
\<close>

record drgn_symbol =
  drgn_symbol_name :: string
  drgn_symbol_address :: "64 word"
  drgn_symbol_size :: "64 word"
  drgn_symbol_binding :: enum_code
  drgn_symbol_kind :: enum_code

text \<open>
  Modelled from the spec: \<^verbatim>\<open>drgn_symbol_eq\<close>, which is missing from the sources. "Two
  Symbol Records are equal iff every field (name, address, size, binding, kind) is equal".
\<close>

definition drgn_symbol_eq :: "drgn_symbol \<Rightarrow> drgn_symbol \<Rightarrow> bool" where
  "drgn_symbol_eq a b =
     (drgn_symbol_name a = drgn_symbol_name b \<and>
      drgn_symbol_address a = drgn_symbol_address b \<and>
      drgn_symbol_size a = drgn_symbol_size b \<and>
      drgn_symbol_binding a = drgn_symbol_binding b \<and>
      drgn_symbol_kind a = drgn_symbol_kind b)"

text \<open>
  The C heap of symbol structs: what \<^verbatim>\<open>self->sym\<close> points to. Every operation below
  takes the heap and returns it, so that a write to a struct would show.
\<close>

type_synonym memory = "addr \<Rightarrow> drgn_symbol"

text \<open>
  \<^verbatim>\<open>Symbol\<close>, the Python object: a pointer to the struct and a pointer to the owning
  \<^verbatim>\<open>Program\<close>.
\<close>

record Symbol =
  sym :: addr
  prog :: addr

section \<open>Python values\<close>

text \<open>
  The failures an operation can end in: a Python exception (the C function returns
  \<^verbatim>\<open>NULL\<close>) and a write past the end of a local buffer. \<open>InvalidSymbol\<close> is the
  construction error that the spec names; it is here so that a result can be said not
  to be it. Apart from \<^verbatim>\<open>tp_alloc\<close> in \<^verbatim>\<open>Symbol_wrap\<close>, allocation is taken to succeed.
\<close>

datatype error =
  MemoryError | UnicodeDecodeError | ValueError | BufferOverflow | InvalidSymbol

text \<open>
  The Python objects the operations return: the \<^verbatim>\<open>NotImplemented\<close> singleton, the two
  Booleans, an \<^verbatim>\<open>int\<close>, a \<^verbatim>\<open>str\<close> (its code points) and a member of an enumeration class
  (the name of its class, its own name and its value).
\<close>

datatype pyvalue =
    Py_NotImplemented
  | Py_None
  | Py_Bool bool
  | PyLong int
  | PyUnicode "nat list"
  | PyEnum string string int

text \<open>
  The second operand of a comparison is any Python object: an instance of
  \<^verbatim>\<open>Symbol_type\<close> or an object of another type. \<^verbatim>\<open>Symbol_type\<close> has
  \<^verbatim>\<open>tp_flags = Py_TPFLAGS_DEFAULT\<close>, so it has no subtypes and
  \<^verbatim>\<open>PyObject_TypeCheck(other, &Symbol_type)\<close> holds exactly for the first form.
\<close>

datatype pyobject = Symbol_instance Symbol | Other_object pyvalue

fun PyObject_TypeCheck_Symbol :: "pyobject \<Rightarrow> bool" where
  "PyObject_TypeCheck_Symbol (Symbol_instance s) = True"
| "PyObject_TypeCheck_Symbol (Other_object v) = False"

text \<open>The comparison codes of CPython's \<^verbatim>\<open>object.h\<close>.\<close>

definition Py_LT :: int where "Py_LT = 0"
definition Py_LE :: int where "Py_LE = 1"
definition Py_EQ :: int where "Py_EQ = 2"
definition Py_NE :: int where "Py_NE = 3"
definition Py_GT :: int where "Py_GT = 4"
definition Py_GE :: int where "Py_GE = 5"

section \<open>Comparison\<close>

text \<open>
  \<^verbatim>\<open>Symbol_richcompare\<close>. The case split stands for the cast \<^verbatim>\<open>(Symbol *)other\<close>; its
  second branch is not reached, because the type check has failed before.
\<close>

definition Symbol_richcompare ::
  "memory \<Rightarrow> Symbol \<Rightarrow> pyobject \<Rightarrow> int \<Rightarrow> (error + pyvalue) \<times> memory" where
  "Symbol_richcompare h self other op =
     (if \<not> PyObject_TypeCheck_Symbol other \<or> (op \<noteq> Py_EQ \<and> op \<noteq> Py_NE)
      then (Inr Py_NotImplemented, h)
      else
        (case other of
           Symbol_instance other_symbol \<Rightarrow>
             let ret = drgn_symbol_eq (h (sym self)) (h (sym other_symbol));
                 ret = (if op = Py_NE then \<not> ret else ret)
             in (Inr (Py_Bool ret), h)
         | Other_object v \<Rightarrow> (Inr Py_NotImplemented, h)))"

section \<open>The enumeration classes and the accessors\<close>

text \<open>
  \<^verbatim>\<open>SymbolBinding_class\<close> and \<^verbatim>\<open>SymbolKind_class\<close> are Python enumeration classes
  (classes of the \<^verbatim>\<open>enum\<close> module) that the module creates elsewhere; the source calls
  them with a value and prints the member it gets with \<^verbatim>\<open>%R\<close>. A class is given by its
  name and its members in definition order, each a name and an integer value.
\<close>

record enum_class =
  enum_name :: string
  enum_members :: "(string \<times> int) list"

text \<open>
  What the module and the interpreter provide at run time: the two classes, and the
  Unicode database's \<^verbatim>\<open>Py_UNICODE_ISPRINTABLE\<close> for code points beyond ASCII.
\<close>

record runtime =
  SymbolBinding_class :: enum_class
  SymbolKind_class :: enum_class
  Py_UNICODE_ISPRINTABLE :: "nat \<Rightarrow> bool"

text \<open>
  \<^verbatim>\<open>PyObject_CallFunction(cls, "k", v)\<close>: the C \<^verbatim>\<open>unsigned long\<close> becomes a Python
  \<^verbatim>\<open>int\<close> and the class is called with it. An enumeration class returns its first member
  with that value and raises \<^verbatim>\<open>ValueError\<close> when it has none.
\<close>

definition PyObject_CallFunction_k :: "enum_class \<Rightarrow> 64 word \<Rightarrow> error + pyvalue" where
  "PyObject_CallFunction_k cls v =
     (case find (\<lambda>m. snd m = uint v) (enum_members cls) of
        None \<Rightarrow> Inl ValueError
      | Some m \<Rightarrow> Inr (PyEnum (enum_name cls) (fst m) (snd m)))"

text \<open>
  \<^verbatim>\<open>PyUnicode_FromString\<close> decodes UTF-8 strictly, as CPython does: shortest forms only,
  no surrogates, nothing above U+10FFFF. A byte sequence that is not UTF-8 raises
  \<^verbatim>\<open>UnicodeDecodeError\<close>.
\<close>

definition utf8_cont :: "nat \<Rightarrow> bool" where
  "utf8_cont b = (128 \<le> b \<and> b \<le> 191)"

fun utf8_decode :: "nat list \<Rightarrow> nat list option" where
  "utf8_decode [] = Some []"
| "utf8_decode (b0 # bs) =
     (if b0 < 128 then map_option ((#) b0) (utf8_decode bs)
      else if 194 \<le> b0 \<and> b0 \<le> 223 then
        (case bs of
           b1 # r \<Rightarrow>
             if utf8_cont b1
             then map_option ((#) ((b0 - 192) * 64 + (b1 - 128))) (utf8_decode r)
             else None
         | _ \<Rightarrow> None)
      else if 224 \<le> b0 \<and> b0 \<le> 239 then
        (case bs of
           b1 # b2 # r \<Rightarrow>
             if utf8_cont b1 \<and> utf8_cont b2 \<and> (b0 = 224 \<longrightarrow> 160 \<le> b1) \<and>
                (b0 = 237 \<longrightarrow> b1 \<le> 159)
             then map_option
                    ((#) ((b0 - 224) * 4096 + (b1 - 128) * 64 + (b2 - 128)))
                    (utf8_decode r)
             else None
         | _ \<Rightarrow> None)
      else if 240 \<le> b0 \<and> b0 \<le> 244 then
        (case bs of
           b1 # b2 # b3 # r \<Rightarrow>
             if utf8_cont b1 \<and> utf8_cont b2 \<and> utf8_cont b3 \<and>
                (b0 = 240 \<longrightarrow> 144 \<le> b1) \<and> (b0 = 244 \<longrightarrow> b1 \<le> 143)
             then map_option
                    ((#) ((b0 - 240) * 262144 + (b1 - 128) * 4096 + (b2 - 128) * 64 +
                          (b3 - 128)))
                    (utf8_decode r)
             else None
         | _ \<Rightarrow> None)
      else None)"

definition PyUnicode_FromString :: "string \<Rightarrow> error + pyvalue" where
  "PyUnicode_FromString u =
     (case utf8_decode (map of_char u) of
        None \<Rightarrow> Inl UnicodeDecodeError
      | Some cps \<Rightarrow> Inr (PyUnicode cps))"

text \<open>
  \<^verbatim>\<open>PyLong_FromUint64\<close>: the Python \<^verbatim>\<open>int\<close> with the value of the unsigned 64-bit
  argument.
\<close>

definition PyLong_FromUint64 :: "64 word \<Rightarrow> error + pyvalue" where
  "PyLong_FromUint64 v = Inr (PyLong (uint v))"

text \<open>The five getters of \<^verbatim>\<open>Symbol_getset\<close>. None of them uses its \<^verbatim>\<open>arg\<close>.\<close>

definition Symbol_get_name :: "memory \<Rightarrow> Symbol \<Rightarrow> (error + pyvalue) \<times> memory" where
  "Symbol_get_name h self = (PyUnicode_FromString (drgn_symbol_name (h (sym self))), h)"

definition Symbol_get_address :: "memory \<Rightarrow> Symbol \<Rightarrow> (error + pyvalue) \<times> memory" where
  "Symbol_get_address h self = (PyLong_FromUint64 (drgn_symbol_address (h (sym self))), h)"

definition Symbol_get_size :: "memory \<Rightarrow> Symbol \<Rightarrow> (error + pyvalue) \<times> memory" where
  "Symbol_get_size h self = (PyLong_FromUint64 (drgn_symbol_size (h (sym self))), h)"

definition Symbol_get_binding ::
  "runtime \<Rightarrow> memory \<Rightarrow> Symbol \<Rightarrow> (error + pyvalue) \<times> memory" where
  "Symbol_get_binding rt h self =
     (PyObject_CallFunction_k (SymbolBinding_class rt)
        (ucast (drgn_symbol_binding (h (sym self)))), h)"

definition Symbol_get_kind ::
  "runtime \<Rightarrow> memory \<Rightarrow> Symbol \<Rightarrow> (error + pyvalue) \<times> memory" where
  "Symbol_get_kind rt h self =
     (PyObject_CallFunction_k (SymbolKind_class rt)
        (ucast (drgn_symbol_kind (h (sym self)))), h)"

text \<open>
  The getter table \<^verbatim>\<open>Symbol_getset\<close>: the attribute names and the getter each one runs.
  Every entry has a \<^verbatim>\<open>NULL\<close> setter.
\<close>

definition Symbol_getset ::
  "runtime \<Rightarrow> (string \<times> (memory \<Rightarrow> Symbol \<Rightarrow> (error + pyvalue) \<times> memory)) list" where
  "Symbol_getset rt =
     [(''name'', Symbol_get_name),
      (''address'', Symbol_get_address),
      (''size'', Symbol_get_size),
      (''binding'', Symbol_get_binding rt),
      (''kind'', Symbol_get_kind rt)]"

section \<open>Formatting\<close>

text \<open>Lower-case hexadecimal digits, as \<^verbatim>\<open>%x\<close> and CPython's \<^verbatim>\<open>Py_hexdigits\<close> print them.\<close>

definition hex_digit :: "nat \<Rightarrow> char" where
  "hex_digit d = ''0123456789abcdef'' ! (d mod 16)"

text \<open>\<^verbatim>\<open>%x\<close>: no leading zeros, one digit for zero.\<close>

fun hex_of_nat :: "nat \<Rightarrow> string" where
  "hex_of_nat n =
     (if n < 16 then [hex_digit n] else hex_of_nat (n div 16) @ [hex_digit (n mod 16)])"

declare hex_of_nat.simps [simp del]

text \<open>A fixed number of hexadecimal digits, for the escapes of \<^verbatim>\<open>repr\<close>.\<close>

fun hex_fixed :: "nat \<Rightarrow> nat \<Rightarrow> string" where
  "hex_fixed 0 n = []"
| "hex_fixed (Suc k) n = hex_fixed k (n div 16) @ [hex_digit (n mod 16)]"

text \<open>The text that \<^verbatim>\<open>"0x%" PRIx64\<close> produces for a 64-bit unsigned value.\<close>

definition format_0x_PRIx64 :: "64 word \<Rightarrow> string" where
  "format_0x_PRIx64 v = ''0x'' @ hex_of_nat (unat v)"

text \<open>
  \<^verbatim>\<open>sprintf(buf, "0x%" PRIx64, v)\<close> into a buffer of \<open>cap\<close> bytes: the text and its
  terminating NUL are written, and writing more than \<open>cap\<close> bytes is a buffer overflow.
\<close>

definition sprintf_0x_PRIx64 :: "nat \<Rightarrow> 64 word \<Rightarrow> error + string" where
  "sprintf_0x_PRIx64 cap v =
     (let s = format_0x_PRIx64 v
      in if length s + 1 \<le> cap then Inr s else Inl BufferOverflow)"

text \<open>An ASCII C string as the code points of a Python \<^verbatim>\<open>str\<close>.\<close>

definition ascii :: "string \<Rightarrow> nat list" where
  "ascii s = map of_char s"

text \<open>
  \<^verbatim>\<open>repr\<close> of a \<^verbatim>\<open>str\<close>, after CPython's \<^verbatim>\<open>unicode_repr\<close>: double quotes when the text
  has a single quote and no double quote, single quotes otherwise; the quote and the
  backslash (code point 92) escaped; tab, newline and carriage return by letter; other
  control characters and unprintable code points in hexadecimal.
\<close>

definition repr_quote :: "nat list \<Rightarrow> nat" where
  "repr_quote cps = (if 39 \<in> set cps \<and> 34 \<notin> set cps then 34 else 39)"

definition repr_char :: "runtime \<Rightarrow> nat \<Rightarrow> nat \<Rightarrow> nat list" where
  "repr_char rt quote ch =
     (if ch = quote \<or> ch = 92 then [92, ch]
      else if ch = 9 then 92 # ascii ''t''
      else if ch = 10 then 92 # ascii ''n''
      else if ch = 13 then 92 # ascii ''r''
      else if ch < 32 \<or> ch = 127 then 92 # ascii (''x'' @ hex_fixed 2 ch)
      else if ch < 127 then [ch]
      else if \<not> Py_UNICODE_ISPRINTABLE rt ch then
        (if ch \<le> 255 then 92 # ascii (''x'' @ hex_fixed 2 ch)
         else if ch \<le> 65535 then 92 # ascii (''u'' @ hex_fixed 4 ch)
         else 92 # ascii (''U'' @ hex_fixed 8 ch))
      else [ch])"

definition unicode_repr :: "runtime \<Rightarrow> nat list \<Rightarrow> nat list" where
  "unicode_repr rt cps =
     (let quote = repr_quote cps
      in [quote] @ concat (map (repr_char rt quote) cps) @ [quote])"

text \<open>Decimal digits, for \<^verbatim>\<open>repr\<close> of an \<^verbatim>\<open>int\<close>.\<close>

fun dec_of_nat :: "nat \<Rightarrow> string" where
  "dec_of_nat n =
     (if n < 10 then [''0123456789'' ! n]
      else dec_of_nat (n div 10) @ [''0123456789'' ! (n mod 10)])"

declare dec_of_nat.simps [simp del]

text \<open>\<^verbatim>\<open>repr\<close> of an \<^verbatim>\<open>int\<close>: its decimal digits, after a minus sign when negative.\<close>

definition long_repr :: "int \<Rightarrow> string" where
  "long_repr i = (if i < 0 then CHR ''-'' # dec_of_nat (nat (- i)) else dec_of_nat (nat i))"

text \<open>
  \<^verbatim>\<open>repr\<close> of a member of an enumeration class, as \<^verbatim>\<open>Enum.__repr__\<close> of Python's
  \<^verbatim>\<open>enum\<close> module forms it: \<^verbatim>\<open><Class.NAME: value>\<close>, the value shown by its own
  \<^verbatim>\<open>repr\<close>.
\<close>

definition enum_repr :: "string \<Rightarrow> string \<Rightarrow> int \<Rightarrow> string" where
  "enum_repr cls_name member_name member_value =
     ''<'' @ cls_name @ ''.'' @ member_name @ '': '' @ long_repr member_value @ ''>''"

text \<open>\<^verbatim>\<open>PyObject_Repr\<close>, which the \<^verbatim>\<open>%R\<close> conversion calls.\<close>

fun PyObject_Repr :: "runtime \<Rightarrow> pyvalue \<Rightarrow> nat list" where
  "PyObject_Repr rt Py_NotImplemented = ascii ''NotImplemented''"
| "PyObject_Repr rt Py_None = ascii ''None''"
| "PyObject_Repr rt (Py_Bool b) = ascii (if b then ''True'' else ''False'')"
| "PyObject_Repr rt (PyLong i) = ascii (long_repr i)"
| "PyObject_Repr rt (PyUnicode cps) = unicode_repr rt cps"
| "PyObject_Repr rt (PyEnum c n v) = ascii (enum_repr c n v)"

text \<open>
  \<^verbatim>\<open>PyUnicode_FromFormat\<close> with the format string of \<^verbatim>\<open>Symbol_repr\<close>,
  \<^verbatim>\<open>"Symbol(name=%R, address=%s, size=%s, binding=%R, kind=%R)"\<close>: \<^verbatim>\<open>%R\<close> inserts the
  \<^verbatim>\<open>repr\<close> of an object, \<^verbatim>\<open>%s\<close> a C string.
\<close>

definition PyUnicode_FromFormat_Symbol ::
  "runtime \<Rightarrow> pyvalue \<Rightarrow> string \<Rightarrow> string \<Rightarrow> pyvalue \<Rightarrow> pyvalue \<Rightarrow> error + pyvalue" where
  "PyUnicode_FromFormat_Symbol rt name_obj address_buf size_buf binding_obj kind_obj =
     Inr (PyUnicode
       (ascii ''Symbol(name='' @ PyObject_Repr rt name_obj @
        ascii '', address='' @ ascii address_buf @
        ascii '', size='' @ ascii size_buf @
        ascii '', binding='' @ PyObject_Repr rt binding_obj @
        ascii '', kind='' @ PyObject_Repr rt kind_obj @
        ascii '')''))"

text \<open>
  \<^verbatim>\<open>Symbol_repr\<close>, in the order of the source: the name, the binding, the kind (each
  with its \<^verbatim>\<open>NULL\<close> check), the two \<^verbatim>\<open>sprintf\<close> calls into \<^verbatim>\<open>char[19]\<close>, the format.
\<close>

definition Symbol_repr :: "runtime \<Rightarrow> memory \<Rightarrow> Symbol \<Rightarrow> (error + pyvalue) \<times> memory" where
  "Symbol_repr rt h self =
     (case PyUnicode_FromString (drgn_symbol_name (h (sym self))) of
        Inl e \<Rightarrow> (Inl e, h)
      | Inr name_obj \<Rightarrow>
     (case Symbol_get_binding rt h self of
        (Inl e, h1) \<Rightarrow> (Inl e, h1)
      | (Inr binding_obj, h1) \<Rightarrow>
     (case Symbol_get_kind rt h1 self of
        (Inl e, h2) \<Rightarrow> (Inl e, h2)
      | (Inr kind_obj, h2) \<Rightarrow>
     (case sprintf_0x_PRIx64 19 (drgn_symbol_address (h2 (sym self))) of
        Inl e \<Rightarrow> (Inl e, h2)
      | Inr address_buf \<Rightarrow>
     (case sprintf_0x_PRIx64 19 (drgn_symbol_size (h2 (sym self))) of
        Inl e \<Rightarrow> (Inl e, h2)
      | Inr size_buf \<Rightarrow>
          (PyUnicode_FromFormat_Symbol rt name_obj address_buf size_buf binding_obj kind_obj,
           h2))))))"

section \<open>Construction\<close>



section \<open>The symbol index, after the spec\<close>

text \<open>
  Modelled from the spec: the Symbol Table and the Symbol Index, which are missing from
  the sources. A table is the sequence of one image's records in parser order. An index
  entry refers to a record and remembers the image it came from (the position of its
  table in load order) and its position in that table.
\<close>

type_synonym symbol_table = "drgn_symbol list"

record index_entry =
  entry_symbol :: drgn_symbol
  entry_image :: nat
  entry_position :: nat

definition table_entries :: "nat \<times> symbol_table \<Rightarrow> index_entry list" where
  "table_entries it =
     map (\<lambda>(pos, s). \<lparr>entry_symbol = s, entry_image = fst it, entry_position = pos\<rparr>)
       (enumerate 0 (snd it))"

text \<open>
  Modelled from the spec: \<^verbatim>\<open>build(tables)\<close> "merges all Symbol Records from the given
  Symbol Tables into one sorted-by-address structure".
\<close>

definition build :: "symbol_table list \<Rightarrow> index_entry list" where
  "build tables =
     sort_key (\<lambda>e. drgn_symbol_address (entry_symbol e))
       (concat (map table_entries (enumerate 0 tables)))"

text \<open>
  Modelled from the spec: the range of a record is \<^verbatim>\<open>[start, start+size)\<close>, and a record
  of size 0 is "treated as \<^verbatim>\<open>[address, address]\<close> (a single covered address)". The sum is
  the mathematical one: by the record invariant it does not overflow.
\<close>

definition contains_address :: "drgn_symbol \<Rightarrow> 64 word \<Rightarrow> bool" where
  "contains_address r a =
     (if drgn_symbol_size r = 0 then a = drgn_symbol_address r
      else drgn_symbol_address r \<le> a \<and>
           unat a < unat (drgn_symbol_address r) + unat (drgn_symbol_size r))"

text \<open>
  Modelled from the spec: the tie-break of \<^verbatim>\<open>find_containing\<close>. "Prefer the record with
  the smallest size; if still tied, prefer GLOBAL binding over LOCAL/WEAK; if still tied,
  prefer the record discovered from the most recently loaded image; any remaining tie is
  resolved by first-encountered order." \<open>global\<close> is the code of GLOBAL.
\<close>

definition preferred :: "enum_code \<Rightarrow> index_entry \<Rightarrow> index_entry \<Rightarrow> bool" where
  "preferred global e b =
     (let se = drgn_symbol_size (entry_symbol e); sb = drgn_symbol_size (entry_symbol b);
          ge = (drgn_symbol_binding (entry_symbol e) = global);
          gb = (drgn_symbol_binding (entry_symbol b) = global)
      in se < sb \<or>
         (se = sb \<and>
           ((ge \<and> \<not> gb) \<or>
            (ge = gb \<and>
              (entry_image b < entry_image e \<or>
               (entry_image e = entry_image b \<and> entry_position e < entry_position b))))))"

text \<open>
  Modelled from the spec: \<^verbatim>\<open>find_containing(address)\<close> "returns the Symbol Record whose
  range contains address, or not found", the preferred one when several do.
\<close>

definition find_containing ::
  "enum_code \<Rightarrow> index_entry list \<Rightarrow> 64 word \<Rightarrow> drgn_symbol option" where
  "find_containing global index a =
     (case filter (\<lambda>e. contains_address (entry_symbol e) a) index of
        [] \<Rightarrow> None
      | e # es \<Rightarrow>
          Some (entry_symbol (fold (\<lambda>x best. if preferred global x best then x else best) es e)))"

text \<open>
  The containment condition in the words of the spec's testable property:
  \<^verbatim>\<open>r.address <= addr < r.address + max(r.size, 1)\<close>, over the integers.
\<close>

definition covers :: "drgn_symbol \<Rightarrow> 64 word \<Rightarrow> bool" where
  "covers r a =
     (unat (drgn_symbol_address r) \<le> unat a \<and>
      unat a < unat (drgn_symbol_address r) + max (unat (drgn_symbol_size r)) 1)"

section \<open>Notions the properties are stated with\<close>

text \<open>The equality check of two symbol objects returns \<^verbatim>\<open>True\<close>.\<close>

definition equality_holds :: "memory \<Rightarrow> Symbol \<Rightarrow> Symbol \<Rightarrow> bool" where
  "equality_holds h a b =
     (Symbol_richcompare h a (Symbol_instance b) Py_EQ = (Inr (Py_Bool True), h))"

text \<open>The name of the variant of an enumeration class whose numeric code is \<open>c\<close>.\<close>

definition variant_of :: "enum_class \<Rightarrow> enum_code \<Rightarrow> string option" where
  "variant_of cls c = map_option fst (find (\<lambda>m. snd m = uint c) (enum_members cls))"

text \<open>
  Text is a sequence of Unicode scalar values: code points up to U+10FFFF that are not
  surrogates (U+D800 to U+DFFF).
\<close>

definition scalar_value :: "nat \<Rightarrow> bool" where
  "scalar_value cp = (cp < 1114112 \<and> \<not> (55296 \<le> cp \<and> cp \<le> 57343))"

text \<open>The UTF-8 form of a scalar value, by the Unicode standard's table, and of a text.\<close>

definition utf8_encode_cp :: "nat \<Rightarrow> nat list" where
  "utf8_encode_cp cp =
     (if cp < 128 then [cp]
      else if cp < 2048 then [192 + cp div 64, 128 + cp mod 64]
      else if cp < 65536 then [224 + cp div 4096, 128 + (cp div 64) mod 64, 128 + cp mod 64]
      else [240 + cp div 262144, 128 + (cp div 4096) mod 64, 128 + (cp div 64) mod 64,
            128 + cp mod 64])"

definition utf8_encode :: "nat list \<Rightarrow> nat list" where
  "utf8_encode cps = concat (map utf8_encode_cp cps)"

text \<open>
  The stored name is the text \<open>cps\<close>: its bytes are the UTF-8 form of these scalar
  values. This is said of the bytes, without the decoder of \<^verbatim>\<open>PyUnicode_FromString\<close>.
\<close>

definition is_text :: "string \<Rightarrow> nat list \<Rightarrow> bool" where
  "is_text bytes cps = (list_all scalar_value cps \<and> map of_char bytes = utf8_encode cps)"

text \<open>
  A name made of printable ASCII characters other than the single quote and the
  backslash, as the names of symbols usually are.
\<close>

definition plain_name :: "nat list \<Rightarrow> bool" where
  "plain_name cps = list_all (\<lambda>c. 32 \<le> c \<and> c < 127 \<and> c \<noteq> 39 \<and> c \<noteq> 92) cps"

subsection \<open>The records of the spec's scenario\<close>

text \<open>
  An example runtime: the classes \<^verbatim>\<open>SymbolBinding\<close> and \<^verbatim>\<open>SymbolKind\<close> with the variants
  the spec lists, numbered in that order, and a Unicode database that takes the code
  points above U+00A0 as printable.
\<close>

definition example_runtime :: runtime where
  "example_runtime =
     \<lparr>SymbolBinding_class =
        \<lparr>enum_name = ''SymbolBinding'',
         enum_members =
           [(''UNKNOWN'', 0), (''LOCAL'', 1), (''GLOBAL'', 2), (''WEAK'', 3), (''UNIQUE'', 4)]\<rparr>,
      SymbolKind_class =
        \<lparr>enum_name = ''SymbolKind'',
         enum_members =
           [(''UNKNOWN'', 0), (''NOTYPE'', 1), (''OBJECT'', 2), (''FUNC'', 3),
            (''SECTION'', 4), (''FILE'', 5), (''COMMON'', 6), (''TLS'', 7)]\<rparr>,
      Py_UNICODE_ISPRINTABLE = (\<lambda>c. 160 < c)\<rparr>"

definition example_main :: drgn_symbol where
  "example_main =
     \<lparr>drgn_symbol_name = ''main'', drgn_symbol_address = 0x1000, drgn_symbol_size = 0x50,
      drgn_symbol_binding = 2, drgn_symbol_kind = 3\<rparr>"

definition example_helper :: drgn_symbol where
  "example_helper =
     \<lparr>drgn_symbol_name = ''helper'', drgn_symbol_address = 0x1050, drgn_symbol_size = 0x20,
      drgn_symbol_binding = 1, drgn_symbol_kind = 3\<rparr>"

text \<open>A marker of size 0 at the start of \<open>main\<close>.\<close>

definition example_marker :: drgn_symbol where
  "example_marker =
     \<lparr>drgn_symbol_name = ''_start'', drgn_symbol_address = 0x1000, drgn_symbol_size = 0,
      drgn_symbol_binding = 1, drgn_symbol_kind = 1\<rparr>"

text \<open>The table of the scenario, and a table in which two records cover one address.\<close>

definition example_table :: symbol_table where
  "example_table = [example_main, example_helper]"

definition example_table_marked :: symbol_table where
  "example_table_marked = [example_main, example_marker]"

text \<open>
  A heap after two parses of one image: the structs at 0 and 2 both hold \<open>main\<close>, the
  struct at 1 holds \<open>helper\<close>.
\<close>

definition example_memory :: memory where
  "example_memory p = (if p = 1 then example_helper else example_main)"

text \<open>
  A record whose name is not ASCII: the bytes \<^verbatim>\<open>c3 a9 e2 82 ac f0 9f 98 80\<close> are the
  UTF-8 form of U+00E9, U+20AC and U+1F600. And a record whose \<open>address + size\<close> is
  \<open>2^64\<close>, with a binding code that is no variant.
\<close>

definition example_unicode :: drgn_symbol where
  "example_unicode =
     \<lparr>drgn_symbol_name =
        [CHR 0xC3, CHR 0xA9, CHR 0xE2, CHR 0x82, CHR 0xAC, CHR 0xF0, CHR 0x9F, CHR 0x98,
         CHR 0x80],
      drgn_symbol_address = 0x2000, drgn_symbol_size = 8, drgn_symbol_binding = 2,
      drgn_symbol_kind = 2\<rparr>"

definition example_overflow :: drgn_symbol where
  "example_overflow =
     \<lparr>drgn_symbol_name = ''end'', drgn_symbol_address = 0xffffffffffffffff,
      drgn_symbol_size = 1, drgn_symbol_binding = 9, drgn_symbol_kind = 3\<rparr>"

text \<open>The same heap with these two records at 3 and 4.\<close>

definition example_memory_wide :: memory where
  "example_memory_wide p =
     (if p = 3 then example_unicode else if p = 4 then example_overflow
      else example_memory p)"

section \<open>Lemmas about the model\<close>

subsection \<open>Comparison\<close>

lemma Symbol_richcompare_EQ:
  "Symbol_richcompare h a (Symbol_instance b) Py_EQ =
     (Inr (Py_Bool (drgn_symbol_eq (h (sym a)) (h (sym b)))), h)"
  by (simp add: Symbol_richcompare_def Py_EQ_def Py_NE_def)

lemma Symbol_richcompare_NE:
  "Symbol_richcompare h a (Symbol_instance b) Py_NE =
     (Inr (Py_Bool (\<not> drgn_symbol_eq (h (sym a)) (h (sym b)))), h)"
  by (simp add: Symbol_richcompare_def Py_EQ_def Py_NE_def)

lemma Symbol_richcompare_frame: "snd (Symbol_richcompare h s other op) = h"
  by (cases other) (simp_all add: Symbol_richcompare_def Let_def)

lemma equality_holds_iff: "equality_holds h a b \<longleftrightarrow> drgn_symbol_eq (h (sym a)) (h (sym b))"
  by (simp add: equality_holds_def Symbol_richcompare_EQ)

subsection \<open>Enumeration classes\<close>

lemma uint_ucast_code: "uint (ucast (c :: 32 word) :: 64 word) = uint c"
  by (simp add: uint_up_ucast is_up)

lemma CallFunction_variant:
  assumes "variant_of cls c = Some n"
  shows "PyObject_CallFunction_k cls (ucast c) = Inr (PyEnum (enum_name cls) n (uint c)) \<and>
         (n, uint c) \<in> set (enum_members cls)"
proof -
  from assms obtain m
    where m: "find (\<lambda>m. snd m = uint c) (enum_members cls) = Some m" and n: "fst m = n"
    by (auto simp: variant_of_def)
  from m have v: "snd m = uint c" and mem: "m \<in> set (enum_members cls)"
    by (auto simp: find_Some_iff)
  from n v have "m = (n, uint c)" by (cases m) simp
  with m mem show ?thesis
    by (simp add: PyObject_CallFunction_k_def uint_ucast_code)
qed

lemma CallFunction_no_variant:
  "variant_of cls c = None \<Longrightarrow> PyObject_CallFunction_k cls (ucast c) = Inl ValueError"
  by (auto simp: variant_of_def PyObject_CallFunction_k_def uint_ucast_code
           split: option.splits)

subsection \<open>Hexadecimal text\<close>

lemma hex_of_nat_length: "n < 16 ^ Suc k \<Longrightarrow> length (hex_of_nat n) \<le> Suc k"
proof (induction k arbitrary: n)
  case 0
  then show ?case by (simp add: hex_of_nat.simps)
next
  case (Suc k)
  show ?case
  proof (cases "n < 16")
    case True
    then show ?thesis by (simp add: hex_of_nat.simps)
  next
    case False
    from Suc.prems have "n div 16 < 16 ^ Suc k"
      by (simp add: less_mult_imp_div_less mult.commute)
    then have "length (hex_of_nat (n div 16)) \<le> Suc k" by (rule Suc.IH)
    with False show ?thesis by (subst hex_of_nat.simps) simp
  qed
qed

lemma hex_of_nat_nonempty: "hex_of_nat n \<noteq> []"
  by (subst hex_of_nat.simps) simp

lemma hex_of_word_length: "length (hex_of_nat (unat (v :: 64 word))) \<le> 16"
proof -
  have "unat v < 2 ^ 64" using unsigned_less [of v] by simp
  then have "unat v < 16 ^ Suc 15" by simp
  then have "length (hex_of_nat (unat v)) \<le> Suc 15" by (rule hex_of_nat_length)
  then show ?thesis by simp
qed

lemma sprintf_19: "sprintf_0x_PRIx64 19 v = Inr (format_0x_PRIx64 v)"
  using hex_of_word_length [of v] by (simp add: sprintf_0x_PRIx64_def format_0x_PRIx64_def)

subsection \<open>UTF-8\<close>

lemma split64: "z < 64 \<Longrightarrow> (u * 64 + z) div 64 = u \<and> (u * 64 + z) mod 64 = (z::nat)"
  by simp

lemma encode_two:
  assumes "194 \<le> b0" "b0 \<le> 223" "utf8_cont b1"
  shows "utf8_encode_cp ((b0 - 192) * 64 + (b1 - 128)) = [b0, b1]"
proof -
  define x y where "x = b0 - 192" and "y = b1 - 128"
  have b: "b0 = 192 + x" "b1 = 128 + y" and r: "2 \<le> x" "x \<le> 31" "y < 64"
    using assms by (auto simp: x_def y_def utf8_cont_def)
  have d: "(x * 64 + y) div 64 = x" "(x * 64 + y) mod 64 = y" using r by simp_all
  have "128 \<le> x * 64 + y" "x * 64 + y < 2048" using r by simp_all
  with d show ?thesis by (simp add: utf8_encode_cp_def b)
qed

lemma encode_three:
  assumes "224 \<le> b0" "b0 \<le> 239" "utf8_cont b1" "utf8_cont b2" "b0 = 224 \<longrightarrow> 160 \<le> b1"
  shows "utf8_encode_cp ((b0 - 224) * 4096 + (b1 - 128) * 64 + (b2 - 128)) = [b0, b1, b2]"
proof -
  define x y z where "x = b0 - 224" and "y = b1 - 128" and "z = b2 - 128"
  have b: "b0 = 224 + x" "b1 = 128 + y" "b2 = 128 + z" and r: "x \<le> 15" "y < 64" "z < 64"
    and lo: "x = 0 \<longrightarrow> 32 \<le> y"
    using assms by (auto simp: x_def y_def z_def utf8_cont_def)
  define u where "u = x * 64 + y"
  define c where "c = x * 4096 + y * 64 + z"
  have e: "c = u * 64 + z" by (simp add: c_def u_def)
  have c64: "c div 64 = u" "c mod 64 = z" using split64 [OF r(3), of u] by (simp_all add: e)
  have u64: "u div 64 = x" "u mod 64 = y" using split64 [OF r(2), of x] by (simp_all add: u_def)
  have "c div 4096 = c div (64 * 64)" by simp
  also have "\<dots> = c div 64 div 64" by (rule div_mult2_eq)
  finally have c4096: "c div 4096 = x" by (simp add: c64 u64)
  have "2048 \<le> c" using r lo by (cases "x = 0") (simp_all add: c_def)
  moreover have "c < 65536" using r by (simp add: c_def)
  ultimately have "utf8_encode_cp c = [224 + x, 128 + y, 128 + z]"
    by (simp add: utf8_encode_cp_def c64 u64 c4096)
  then show ?thesis by (simp add: c_def b)
qed

lemma encode_four:
  assumes "240 \<le> b0" "b0 \<le> 244" "utf8_cont b1" "utf8_cont b2" "utf8_cont b3"
    "b0 = 240 \<longrightarrow> 144 \<le> b1"
  shows "utf8_encode_cp ((b0 - 240) * 262144 + (b1 - 128) * 4096 + (b2 - 128) * 64 + (b3 - 128))
         = [b0, b1, b2, b3]"
proof -
  define x y z w where "x = b0 - 240" and "y = b1 - 128" and "z = b2 - 128" and "w = b3 - 128"
  have b: "b0 = 240 + x" "b1 = 128 + y" "b2 = 128 + z" "b3 = 128 + w"
    and r: "x \<le> 4" "y < 64" "z < 64" "w < 64" and lo: "x = 0 \<longrightarrow> 16 \<le> y"
    using assms by (auto simp: x_def y_def z_def w_def utf8_cont_def)
  define u where "u = x * 64 + y"
  define v where "v = u * 64 + z"
  define c where "c = x * 262144 + y * 4096 + z * 64 + w"
  have e: "c = v * 64 + w" by (simp add: c_def v_def u_def)
  have c64: "c div 64 = v" "c mod 64 = w" using split64 [OF r(4), of v] by (simp_all add: e)
  have v64: "v div 64 = u" "v mod 64 = z" using split64 [OF r(3), of u] by (simp_all add: v_def)
  have u64: "u div 64 = x" "u mod 64 = y" using split64 [OF r(2), of x] by (simp_all add: u_def)
  have "c div 4096 = c div (64 * 64)" by simp
  also have "\<dots> = c div 64 div 64" by (rule div_mult2_eq)
  finally have c4096: "c div 4096 = u" by (simp add: c64 v64)
  have "c div 262144 = c div (4096 * 64)" by simp
  also have "\<dots> = c div 4096 div 64" by (rule div_mult2_eq)
  finally have c262144: "c div 262144 = x" by (simp add: c4096 u64)
  have "65536 \<le> c" using r lo by (cases "x = 0") (simp_all add: c_def)
  then have "\<not> c < 128" "\<not> c < 2048" "\<not> c < 65536" by simp_all
  then have "utf8_encode_cp c = [240 + x, 128 + y, 128 + z, 128 + w]"
    by (simp add: utf8_encode_cp_def c64 v64 u64 c4096 c262144)
  then show ?thesis by (simp add: c_def b)
qed

lemma utf8_encode_Cons: "utf8_encode (c # cs) = utf8_encode_cp c @ utf8_encode cs"
  by (simp add: utf8_encode_def)

text \<open>Decoding loses nothing: the code points encode back to the bytes they came from.\<close>

lemma utf8_roundtrip: "utf8_decode bs = Some cps \<Longrightarrow> utf8_encode cps = bs"
proof (induction "length bs" arbitrary: bs cps rule: less_induct)
  case less
  show ?case
  proof (cases bs)
    case Nil
    with less.prems show ?thesis by (simp add: utf8_encode_def)
  next
    case (Cons b0 t)
    consider (one) "b0 < 128" | (two) "194 \<le> b0" "b0 \<le> 223" | (three) "224 \<le> b0" "b0 \<le> 239"
      | (four) "240 \<le> b0" "b0 \<le> 244"
      | (bad) "128 \<le> b0" "b0 < 194 \<or> 244 < b0"
      by linarith
    then show ?thesis
    proof cases
      case one
      with less.prems Cons obtain cs where cs: "utf8_decode t = Some cs" "cps = b0 # cs"
        by auto
      from cs(1) Cons have "utf8_encode cs = t" by (intro less.hyps) simp_all
      with one cs(2) Cons show ?thesis by (simp add: utf8_encode_Cons utf8_encode_cp_def)
    next
      case two
      with less.prems Cons obtain b1 r cs where t: "t = b1 # r" and c1: "utf8_cont b1"
        and cs: "utf8_decode r = Some cs" "cps = ((b0 - 192) * 64 + (b1 - 128)) # cs"
        by (auto split: list.splits if_splits)
      from cs(1) Cons t have "utf8_encode cs = r" by (intro less.hyps) simp_all
      with cs(2) Cons t encode_two [OF two c1] show ?thesis by (simp add: utf8_encode_Cons)
    next
      case three
      with less.prems Cons obtain b1 b2 r cs where t: "t = b1 # b2 # r"
        and c: "utf8_cont b1" "utf8_cont b2" "b0 = 224 \<longrightarrow> 160 \<le> b1"
        and cs: "utf8_decode r = Some cs"
          "cps = ((b0 - 224) * 4096 + (b1 - 128) * 64 + (b2 - 128)) # cs"
        by (auto split: list.splits if_splits)
      from cs(1) Cons t have "utf8_encode cs = r" by (intro less.hyps) simp_all
      with cs(2) Cons t encode_three [OF three c] show ?thesis by (simp add: utf8_encode_Cons)
    next
      case four
      with less.prems Cons obtain b1 b2 b3 r cs where t: "t = b1 # b2 # b3 # r"
        and c: "utf8_cont b1" "utf8_cont b2" "utf8_cont b3" "b0 = 240 \<longrightarrow> 144 \<le> b1"
        and cs: "utf8_decode r = Some cs"
          "cps = ((b0 - 240) * 262144 + (b1 - 128) * 4096 + (b2 - 128) * 64 + (b3 - 128)) # cs"
        by (auto split: list.splits if_splits)
      from cs(1) Cons t have "utf8_encode cs = r" by (intro less.hyps) simp_all
      with cs(2) Cons t encode_four [OF four c] show ?thesis by (simp add: utf8_encode_Cons)
    next
      case bad
      with less.prems Cons show ?thesis by auto
    qed
  qed
qed

lemma utf8_decode_ascii: "list_all (\<lambda>b. b < 128) bs \<Longrightarrow> utf8_decode bs = Some bs"
  by (induction bs) simp_all

text \<open>
  The decoder accepts the UTF-8 form of every text and gives the text back: one scalar
  value at a time, by the length of its form.
\<close>

lemma decode_one:
  assumes "cp < 128"
  shows "utf8_decode (utf8_encode_cp cp @ bs) = map_option ((#) cp) (utf8_decode bs)"
  using assms by (simp add: utf8_encode_cp_def)

lemma decode_two:
  assumes "128 \<le> cp" "cp < 2048"
  shows "utf8_decode (utf8_encode_cp cp @ bs) = map_option ((#) cp) (utf8_decode bs)"
proof -
  define x y where "x = cp div 64" and "y = cp mod 64"
  have cp: "cp = x * 64 + y" by (simp add: x_def y_def)
  have r: "2 \<le> x" "x \<le> 31" "y < 64" using assms by (simp_all add: x_def y_def)
  have e: "utf8_encode_cp cp = [192 + x, 128 + y]"
    using assms by (simp add: utf8_encode_cp_def x_def y_def)
  have "utf8_decode ([192 + x, 128 + y] @ bs) =
        map_option ((#) (x * 64 + y)) (utf8_decode bs)"
    using r by (simp add: utf8_cont_def)
  then show ?thesis by (simp add: e cp [symmetric])
qed

lemma decode_three:
  assumes "2048 \<le> cp" "cp < 65536" "\<not> (55296 \<le> cp \<and> cp \<le> 57343)"
  shows "utf8_decode (utf8_encode_cp cp @ bs) = map_option ((#) cp) (utf8_decode bs)"
proof -
  define u where "u = cp div 64"
  define x y z where "x = u div 64" and "y = u mod 64" and "z = cp mod 64"
  have cpu: "cp = u * 64 + z" by (simp add: u_def z_def)
  have u: "u = x * 64 + y" by (simp add: x_def y_def)
  have cp: "cp = x * 4096 + y * 64 + z" by (simp add: cpu u)
  have d: "cp div 4096 = x"
  proof -
    have "cp div 4096 = cp div (64 * 64)" by simp
    also have "\<dots> = cp div 64 div 64" by (rule div_mult2_eq)
    finally show ?thesis by (simp add: x_def u_def)
  qed
  have ub: "32 \<le> u" "u < 1024" using assms by (simp_all add: u_def)
  have sg: "\<not> (864 \<le> u \<and> u \<le> 895)" using assms unfolding u_def by arith
  have r: "x \<le> 15" "y < 64" "z < 64" using ub by (simp_all add: x_def y_def z_def)
  have lo: "x = 0 \<longrightarrow> 32 \<le> y" using ub u by auto
  have hi: "x = 13 \<longrightarrow> y \<le> 31" using sg u r by auto
  have e: "utf8_encode_cp cp = [224 + x, 128 + y, 128 + z]"
    using assms by (simp add: utf8_encode_cp_def d) (simp add: x_def y_def z_def u_def)
  have "utf8_decode ([224 + x, 128 + y, 128 + z] @ bs) =
        map_option ((#) (x * 4096 + y * 64 + z)) (utf8_decode bs)"
    using r lo hi by (simp add: utf8_cont_def)
  then show ?thesis by (simp add: e cp [symmetric])
qed

lemma decode_four:
  assumes "65536 \<le> cp" "cp < 1114112"
  shows "utf8_decode (utf8_encode_cp cp @ bs) = map_option ((#) cp) (utf8_decode bs)"
proof -
  define v where "v = cp div 64"
  define u where "u = v div 64"
  define x y z w where "x = u div 64" and "y = u mod 64" and "z = v mod 64" and "w = cp mod 64"
  have cpv: "cp = v * 64 + w" by (simp add: v_def w_def)
  have vu: "v = u * 64 + z" by (simp add: u_def z_def)
  have u: "u = x * 64 + y" by (simp add: x_def y_def)
  have cp: "cp = x * 262144 + y * 4096 + z * 64 + w" by (simp add: cpv vu u)
  have d1: "cp div 4096 = u"
  proof -
    have "cp div 4096 = cp div (64 * 64)" by simp
    also have "\<dots> = cp div 64 div 64" by (rule div_mult2_eq)
    finally show ?thesis by (simp add: u_def v_def)
  qed
  have d2: "cp div 262144 = x"
  proof -
    have "cp div 262144 = cp div (4096 * 64)" by simp
    also have "\<dots> = cp div 4096 div 64" by (rule div_mult2_eq)
    finally show ?thesis by (simp add: d1 x_def)
  qed
  have ub: "16 \<le> u" "u < 272" using assms unfolding d1 [symmetric] by arith+
  have r: "x \<le> 4" "y < 64" "z < 64" "w < 64"
    using ub by (simp_all add: x_def y_def z_def w_def)
  have lo: "x = 0 \<longrightarrow> 16 \<le> y" using ub u by auto
  have hi: "x = 4 \<longrightarrow> y \<le> 15" using ub u by auto
  have e: "utf8_encode_cp cp = [240 + x, 128 + y, 128 + z, 128 + w]"
    using assms by (simp add: utf8_encode_cp_def d1 d2) (simp add: y_def z_def w_def v_def)
  have "utf8_decode ([240 + x, 128 + y, 128 + z, 128 + w] @ bs) =
        map_option ((#) (x * 262144 + y * 4096 + z * 64 + w)) (utf8_decode bs)"
    using r lo hi by (simp add: utf8_cont_def)
  then show ?thesis by (simp add: e cp [symmetric])
qed

lemma decode_encode_cp:
  assumes "scalar_value cp"
  shows "utf8_decode (utf8_encode_cp cp @ bs) = map_option ((#) cp) (utf8_decode bs)"
proof -
  consider "cp < 128" | "128 \<le> cp" "cp < 2048" | "2048 \<le> cp" "cp < 65536" | "65536 \<le> cp"
    by linarith
  then show ?thesis
  proof cases
    case 1
    then show ?thesis by (rule decode_one)
  next
    case 2
    then show ?thesis by (rule decode_two)
  next
    case 3
    with assms show ?thesis by (intro decode_three) (simp_all add: scalar_value_def)
  next
    case 4
    with assms show ?thesis by (intro decode_four) (simp_all add: scalar_value_def)
  qed
qed

lemma utf8_decode_encode:
  "list_all scalar_value cps \<Longrightarrow> utf8_decode (utf8_encode cps) = Some cps"
proof (induction cps)
  case Nil
  show ?case by (simp add: utf8_encode_def)
next
  case (Cons cp cps)
  then have "utf8_decode (utf8_encode_cp cp @ utf8_encode cps) = Some (cp # cps)"
    by (simp add: decode_encode_cp)
  then show ?case by (simp add: utf8_encode_def)
qed

lemma is_text_decodes:
  "is_text bytes cps \<Longrightarrow> utf8_decode (map of_char bytes) = Some cps"
  by (simp add: is_text_def utf8_decode_encode)

lemma PyUnicode_FromString_text:
  "is_text bytes cps \<Longrightarrow> PyUnicode_FromString bytes = Inr (PyUnicode cps)"
  by (simp add: PyUnicode_FromString_def is_text_decodes)

subsection \<open>The display string\<close>

lemma unicode_repr_plain:
  assumes "plain_name cps"
  shows "unicode_repr rt cps = 39 # cps @ [39]"
proof -
  from assms have q: "repr_quote cps = 39"
    by (auto simp: repr_quote_def plain_name_def list_all_iff)
  from assms have "concat (map (repr_char rt 39) cps) = cps"
    by (induction cps) (simp_all add: plain_name_def repr_char_def)
  with q show ?thesis by (simp add: unicode_repr_def)
qed

lemma Symbol_repr_text:
  assumes "is_text (drgn_symbol_name (h (sym self))) cps"
    and "variant_of (SymbolBinding_class rt) (drgn_symbol_binding (h (sym self))) = Some bn"
    and "variant_of (SymbolKind_class rt) (drgn_symbol_kind (h (sym self))) = Some kn"
  shows "Symbol_repr rt h self =
     (Inr (PyUnicode
        (ascii ''Symbol(name='' @ unicode_repr rt cps @
         ascii '', address=0x'' @
         ascii (hex_of_nat (unat (drgn_symbol_address (h (sym self))))) @
         ascii '', size=0x'' @ ascii (hex_of_nat (unat (drgn_symbol_size (h (sym self))))) @
         ascii '', binding='' @
         ascii (enum_repr (enum_name (SymbolBinding_class rt)) bn
                  (uint (drgn_symbol_binding (h (sym self))))) @
         ascii '', kind='' @
         ascii (enum_repr (enum_name (SymbolKind_class rt)) kn
                  (uint (drgn_symbol_kind (h (sym self))))) @
         ascii '')'')), h)"
  using PyUnicode_FromString_text [OF assms(1)]
    CallFunction_variant [OF assms(2)] CallFunction_variant [OF assms(3)]
  by (simp add: Symbol_repr_def Symbol_get_binding_def
        Symbol_get_kind_def sprintf_19 PyUnicode_FromFormat_Symbol_def
        format_0x_PRIx64_def ascii_def)

lemma Symbol_repr_frame: "snd (Symbol_repr rt h self) = h"
  by (simp add: Symbol_repr_def Symbol_get_binding_def Symbol_get_kind_def sprintf_19
        PyUnicode_FromFormat_Symbol_def split: sum.splits)

lemma Symbol_repr_no_overflow: "fst (Symbol_repr rt h self) \<noteq> Inl BufferOverflow"
  by (auto simp: Symbol_repr_def Symbol_get_binding_def Symbol_get_kind_def sprintf_19
        PyUnicode_FromFormat_Symbol_def PyUnicode_FromString_def PyObject_CallFunction_k_def
        split: sum.splits option.splits)

lemma Symbol_repr_depends:
  "h (sym a) = h' (sym a') \<Longrightarrow> fst (Symbol_repr rt h a) = fst (Symbol_repr rt h' a')"
  by (simp add: Symbol_repr_def Symbol_get_binding_def Symbol_get_kind_def sprintf_19
        PyUnicode_FromFormat_Symbol_def split: sum.splits)

subsection \<open>The index\<close>

lemma contains_address_covers: "contains_address r a \<longleftrightarrow> covers r a"
proof (cases "drgn_symbol_size r = 0")
  case True
  then show ?thesis
    by (auto simp: contains_address_def covers_def word_unat_eq_iff)
next
  case False
  then have "unat (drgn_symbol_size r) \<noteq> 0" by (simp add: unat_eq_0)
  with False show ?thesis
    by (auto simp: contains_address_def covers_def word_le_nat_alt max_def)
qed

lemma fold_pick_mem: "fold (\<lambda>x best. if P x best then x else best) es e \<in> set (e # es)"
  by (induction es arbitrary: e) auto

lemma table_entries_symbols: "map entry_symbol (table_entries (i, t)) = t"
  by (simp add: table_entries_def comp_def case_prod_unfold map_snd_enumerate[unfolded comp_def])

lemma build_symbols: "entry_symbol ` set (build ts) = set (concat ts)"
proof -
  have "map entry_symbol (concat (map table_entries (enumerate n ts))) = concat ts" for n
    by (induction ts arbitrary: n) (simp_all add: table_entries_symbols)
  then have "entry_symbol ` set (concat (map table_entries (enumerate 0 ts))) = set (concat ts)"
    by (metis set_map)
  then show ?thesis by (simp add: build_def)
qed

lemma find_containing_None:
  "find_containing g idx a = None \<longleftrightarrow> (\<forall>e \<in> set idx. \<not> covers (entry_symbol e) a)"
proof -
  have "find_containing g idx a = None \<longleftrightarrow>
        filter (\<lambda>e. contains_address (entry_symbol e) a) idx = []"
    by (simp add: find_containing_def split: list.splits)
  then show ?thesis by (simp add: filter_empty_conv contains_address_covers)
qed

lemma preferred_irrefl: "\<not> preferred g e e"
  by (simp add: preferred_def)

lemma preferred_unfold:
  "preferred g e b \<longleftrightarrow>
     drgn_symbol_size (entry_symbol e) < drgn_symbol_size (entry_symbol b) \<or>
     (drgn_symbol_size (entry_symbol e) = drgn_symbol_size (entry_symbol b) \<and>
       ((drgn_symbol_binding (entry_symbol e) = g \<and> drgn_symbol_binding (entry_symbol b) \<noteq> g) \<or>
        ((drgn_symbol_binding (entry_symbol e) = g) = (drgn_symbol_binding (entry_symbol b) = g) \<and>
          (entry_image b < entry_image e \<or>
           (entry_image e = entry_image b \<and> entry_position e < entry_position b)))))"
  by (simp add: preferred_def Let_def)

lemma lex_trans:
  fixes sa sb sc :: "64 word" and ia ib ic pa pb pc :: nat
  assumes "sa < sb \<or> (sa = sb \<and> ((ga \<and> \<not> gb) \<or> (ga = gb \<and> (ib < ia \<or> (ia = ib \<and> pa < pb)))))"
    and "sb < sc \<or> (sb = sc \<and> ((gb \<and> \<not> gc) \<or> (gb = gc \<and> (ic < ib \<or> (ib = ic \<and> pb < pc)))))"
  shows "sa < sc \<or> (sa = sc \<and> ((ga \<and> \<not> gc) \<or> (ga = gc \<and> (ic < ia \<or> (ia = ic \<and> pa < pc)))))"
proof -
  consider (lt) "sa < sb \<or> sb < sc" | (eq) "sa = sb" "sb = sc"
    using assms by blast
  then show ?thesis
  proof cases
    case lt
    with assms have "sa < sc" by (metis less_trans)
    then show ?thesis by simp
  next
    case eq
    with assms have ab: "(ga \<and> \<not> gb) \<or> (ga = gb \<and> (ib < ia \<or> (ia = ib \<and> pa < pb)))"
      and bc: "(gb \<and> \<not> gc) \<or> (gb = gc \<and> (ic < ib \<or> (ib = ic \<and> pb < pc)))"
      by simp_all
    consider (g) "(ga \<and> \<not> gb) \<or> (gb \<and> \<not> gc)" | (s) "ga = gb" "gb = gc"
      using ab bc by blast
    then have "(ga \<and> \<not> gc) \<or> (ga = gc \<and> (ic < ia \<or> (ia = ic \<and> pa < pc)))"
    proof cases
      case g
      with ab bc show ?thesis by blast
    next
      case s
      with ab bc have "ib < ia \<or> (ia = ib \<and> pa < pb)" "ic < ib \<or> (ib = ic \<and> pb < pc)"
        by blast+
      then have "ic < ia \<or> (ia = ic \<and> pa < pc)" by linarith
      with s show ?thesis by simp
    qed
    with eq show ?thesis by simp
  qed
qed

lemma preferred_trans: "preferred g a b \<Longrightarrow> preferred g b c \<Longrightarrow> preferred g a c"
  unfolding preferred_unfold by (rule lex_trans)

text \<open>The fold of \<open>find_containing\<close> ends on an entry that no entry it saw is preferred to.\<close>

lemma fold_preferred_best:
  assumes "\<forall>x \<in> A. \<not> preferred g x e"
  shows "\<forall>x \<in> A \<union> set es.
           \<not> preferred g x (fold (\<lambda>x best. if preferred g x best then x else best) es e)"
  using assms
proof (induction es arbitrary: e A)
  case Nil
  then show ?case by simp
next
  case (Cons y es)
  let ?e = "if preferred g y e then y else e"
  have "\<forall>x \<in> insert y A. \<not> preferred g x ?e"
  proof (cases "preferred g y e")
    case True
    with Cons.prems show ?thesis
      by (auto simp: preferred_irrefl dest: preferred_trans)
  next
    case False
    with Cons.prems show ?thesis by auto
  qed
  from Cons.IH [OF this] show ?case by simp
qed

lemma find_containing_Some:
  assumes "find_containing g idx a = Some r"
  shows "\<exists>e \<in> set idx. entry_symbol e = r \<and> covers r a \<and>
           (\<forall>x \<in> set idx. covers (entry_symbol x) a \<longrightarrow> \<not> preferred g x e)"
proof -
  from assms obtain e es
    where f: "filter (\<lambda>e. contains_address (entry_symbol e) a) idx = e # es"
      and r: "r = entry_symbol (fold (\<lambda>x best. if preferred g x best then x else best) es e)"
    by (auto simp: find_containing_def split: list.splits)
  let ?b = "fold (\<lambda>x best. if preferred g x best then x else best) es e"
  have "?b \<in> set (e # es)" by (rule fold_pick_mem)
  with f have "?b \<in> set (filter (\<lambda>e. contains_address (entry_symbol e) a) idx)" by simp
  then have b: "?b \<in> set idx" "covers (entry_symbol ?b) a"
    by (simp_all add: contains_address_covers)
  have "\<forall>x \<in> {e} \<union> set es. \<not> preferred g x ?b"
    by (rule fold_preferred_best) (simp add: preferred_irrefl)
  then have "\<forall>x \<in> set (filter (\<lambda>e. contains_address (entry_symbol e) a) idx).
      \<not> preferred g x ?b"
    by (simp add: f)
  then have "\<forall>x \<in> set idx. covers (entry_symbol x) a \<longrightarrow> \<not> preferred g x ?b"
    by (simp add: contains_address_covers)
  with b r show ?thesis by blast
qed

lemma covers_zero_size:
  "drgn_symbol_size r = 0 \<Longrightarrow> covers r a \<longleftrightarrow> a = drgn_symbol_address r"
  by (auto simp: covers_def word_unat_eq_iff)

section \<open>The properties\<close>

text \<open>
  C1. The equality check of two symbol objects returns \<^verbatim>\<open>True\<close> iff each of the five
  fields (name, address, size, binding, kind) of the first record equals that field of
  the second, and \<^verbatim>\<open>False\<close> otherwise. It is reflexive, symmetric and transitive, and
  its result depends on the field values only: records with equal fields behind other
  wrapper objects, at other addresses, owned by other programs, in another heap, give
  the same result.
\<close>

theorem Symbol_equality_structural:
  "(equality_holds h a b \<longleftrightarrow>
      drgn_symbol_name (h (sym a)) = drgn_symbol_name (h (sym b)) \<and>
      drgn_symbol_address (h (sym a)) = drgn_symbol_address (h (sym b)) \<and>
      drgn_symbol_size (h (sym a)) = drgn_symbol_size (h (sym b)) \<and>
      drgn_symbol_binding (h (sym a)) = drgn_symbol_binding (h (sym b)) \<and>
      drgn_symbol_kind (h (sym a)) = drgn_symbol_kind (h (sym b))) \<and>
   (\<not> equality_holds h a b \<longleftrightarrow>
      Symbol_richcompare h a (Symbol_instance b) Py_EQ = (Inr (Py_Bool False), h)) \<and>
   equality_holds h a a \<and>
   (equality_holds h a b \<longrightarrow> equality_holds h b a) \<and>
   (equality_holds h a b \<and> equality_holds h b c \<longrightarrow> equality_holds h a c) \<and>
   (drgn_symbol_eq (h (sym a)) (h' (sym a')) \<and> drgn_symbol_eq (h (sym b)) (h' (sym b')) \<longrightarrow>
      fst (Symbol_richcompare h a (Symbol_instance b) Py_EQ) =
      fst (Symbol_richcompare h' a' (Symbol_instance b') Py_EQ))"
proof -
  have fields: "equality_holds h a b \<longleftrightarrow>
      drgn_symbol_name (h (sym a)) = drgn_symbol_name (h (sym b)) \<and>
      drgn_symbol_address (h (sym a)) = drgn_symbol_address (h (sym b)) \<and>
      drgn_symbol_size (h (sym a)) = drgn_symbol_size (h (sym b)) \<and>
      drgn_symbol_binding (h (sym a)) = drgn_symbol_binding (h (sym b)) \<and>
      drgn_symbol_kind (h (sym a)) = drgn_symbol_kind (h (sym b))"
    by (simp add: equality_holds_iff drgn_symbol_eq_def)
  have bool: "\<not> equality_holds h a b \<longleftrightarrow>
      Symbol_richcompare h a (Symbol_instance b) Py_EQ = (Inr (Py_Bool False), h)"
    by (simp add: equality_holds_def Symbol_richcompare_EQ)
  have refl: "equality_holds h a a"
    by (simp add: equality_holds_iff drgn_symbol_eq_def)
  have symm: "equality_holds h a b \<longrightarrow> equality_holds h b a"
    by (simp add: equality_holds_iff drgn_symbol_eq_def)
  have trans: "equality_holds h a b \<and> equality_holds h b c \<longrightarrow> equality_holds h a c"
    by (simp add: equality_holds_iff drgn_symbol_eq_def)
  have indep: "drgn_symbol_eq (h (sym a)) (h' (sym a')) \<and>
      drgn_symbol_eq (h (sym b)) (h' (sym b')) \<longrightarrow>
      fst (Symbol_richcompare h a (Symbol_instance b) Py_EQ) =
      fst (Symbol_richcompare h' a' (Symbol_instance b') Py_EQ)"
    by (auto simp: Symbol_richcompare_EQ drgn_symbol_eq_def)
  from fields bool refl symm trans indep show ?thesis by blast
qed

text \<open>
  The two structs that hold \<open>main\<close>, behind wrappers of two programs, compare equal;
  \<open>main\<close> and \<open>helper\<close> do not.
\<close>

theorem Symbol_equality_structural_witness:
  "equality_holds example_memory \<lparr>sym = 0, prog = 7\<rparr> \<lparr>sym = 2, prog = 8\<rparr> \<and>
   \<not> equality_holds example_memory \<lparr>sym = 0, prog = 7\<rparr> \<lparr>sym = 1, prog = 7\<rparr>"
  using Symbol_equality_structural
      [of example_memory "\<lparr>sym = 0, prog = 7\<rparr>" "\<lparr>sym = 2, prog = 8\<rparr>"]
    Symbol_equality_structural
      [of example_memory "\<lparr>sym = 0, prog = 7\<rparr>" "\<lparr>sym = 1, prog = 7\<rparr>"]
  by (simp add: example_memory_def example_main_def example_helper_def)

text \<open>
  C2. \<^verbatim>\<open>find_containing(addr)\<close> on a built index returns a record exactly when some
  record \<open>r\<close> of the tables has \<^verbatim>\<open>r.address <= addr < r.address + max(r.size, 1)\<close>, and
  not-found when \<open>addr\<close> lies outside every record's range. The record it returns is a
  record of the tables that satisfies this condition, and among the entries that satisfy
  it none is preferred to it by the tie-break; a record that is the only one to satisfy
  the condition is the one returned. A record of size 0 covers exactly its start address.
\<close>

theorem find_containing_covers:
  "(find_containing g (build ts) a = None \<longleftrightarrow> (\<forall>r \<in> set (concat ts). \<not> covers r a)) \<and>
   ((\<exists>r. find_containing g (build ts) a = Some r) \<longleftrightarrow> (\<exists>r \<in> set (concat ts). covers r a)) \<and>
   (\<forall>r. find_containing g (build ts) a = Some r \<longrightarrow>
      r \<in> set (concat ts) \<and> covers r a \<and>
      (\<exists>e \<in> set (build ts). entry_symbol e = r \<and>
         (\<forall>x \<in> set (build ts). covers (entry_symbol x) a \<longrightarrow> \<not> preferred g x e))) \<and>
   (\<forall>r \<in> set (concat ts).
      covers r a \<and> (\<forall>r' \<in> set (concat ts). covers r' a \<longrightarrow> r' = r) \<longrightarrow>
      find_containing g (build ts) a = Some r) \<and>
   (\<forall>r. drgn_symbol_size r = 0 \<longrightarrow> (covers r a \<longleftrightarrow> a = drgn_symbol_address r))"
proof -
  have none: "find_containing g (build ts) a = None \<longleftrightarrow>
      (\<forall>r \<in> set (concat ts). \<not> covers r a)"
    unfolding find_containing_None build_symbols [symmetric] by blast
  then have ex: "(\<exists>r. find_containing g (build ts) a = Some r) \<longleftrightarrow>
      (\<exists>r \<in> set (concat ts). covers r a)"
    by (cases "find_containing g (build ts) a") auto
  have some: "r \<in> set (concat ts) \<and> covers r a \<and>
      (\<exists>e \<in> set (build ts). entry_symbol e = r \<and>
         (\<forall>x \<in> set (build ts). covers (entry_symbol x) a \<longrightarrow> \<not> preferred g x e))"
    if "find_containing g (build ts) a = Some r" for r
  proof -
    from find_containing_Some [OF that] obtain e
      where e: "e \<in> set (build ts)" "entry_symbol e = r" "covers r a"
        "\<forall>x \<in> set (build ts). covers (entry_symbol x) a \<longrightarrow> \<not> preferred g x e"
      by blast
    from e(1,2) have "r \<in> entry_symbol ` set (build ts)" by blast
    then have "r \<in> set (concat ts)" by (simp add: build_symbols)
    with e show ?thesis by blast
  qed
  have only: "find_containing g (build ts) a = Some r"
    if "r \<in> set (concat ts)" "covers r a"
      "\<forall>r' \<in> set (concat ts). covers r' a \<longrightarrow> r' = r" for r
  proof (cases "find_containing g (build ts) a")
    case None
    with none that show ?thesis by blast
  next
    case (Some r')
    with some [of r'] that show ?thesis by blast
  qed
  have zero: "drgn_symbol_size r = 0 \<longrightarrow> (covers r a \<longleftrightarrow> a = drgn_symbol_address r)" for r
    by (simp add: covers_zero_size)
  from none ex some only zero show ?thesis by blast
qed

text \<open>
  The table of the spec's scenario, with GLOBAL coded 2. The range of \<open>helper\<close> is
  \<open>[0x1050, 0x1070)\<close>: \<open>0x106f\<close> is its last address, and \<open>0x1070\<close>, which the scenario
  lists under \<open>helper\<close>, lies outside the range the property gives and is not found.
  In the second table the marker of size 0 at the start of \<open>main\<close> is preferred to
  \<open>main\<close> at \<open>0x1000\<close> and covers no other address.
\<close>

theorem find_containing_covers_witness:
  "find_containing 2 (build [example_table]) 0x1010 = Some example_main \<and>
   find_containing 2 (build [example_table]) 0x106f = Some example_helper \<and>
   find_containing 2 (build [example_table]) 0x1070 = None \<and>
   find_containing 2 (build [example_table]) 0x2000 = None \<and>
   find_containing 2 (build [example_table_marked]) 0x1000 = Some example_marker \<and>
   find_containing 2 (build [example_table_marked]) 0x1001 = Some example_main"
  using find_containing_covers [of 2 "[example_table]" "0x1010"]
  by (simp add: covers_def find_containing_def build_def table_entries_def
        contains_address_def preferred_def example_main_def example_helper_def
        example_marker_def example_table_def example_table_marked_def enumerate_eq_zip)

text \<open>
  C3. For a symbol object and any object of another type, both the equality check and
  the inequality check return \<^verbatim>\<open>NotImplemented\<close>; neither raises.
\<close>

theorem richcompare_other_type:
  "\<not> PyObject_TypeCheck_Symbol other \<Longrightarrow>
   Symbol_richcompare h s other Py_EQ = (Inr Py_NotImplemented, h) \<and>
   Symbol_richcompare h s other Py_NE = (Inr Py_NotImplemented, h)"
  by (simp add: Symbol_richcompare_def)

theorem richcompare_other_type_witness:
  "\<not> PyObject_TypeCheck_Symbol (Other_object (PyUnicode (ascii ''main''))) \<and>
   Symbol_richcompare example_memory \<lparr>sym = 0, prog = 7\<rparr>
     (Other_object (PyUnicode (ascii ''main''))) Py_EQ
     = (Inr Py_NotImplemented, example_memory) \<and>
   Symbol_richcompare example_memory \<lparr>sym = 0, prog = 7\<rparr>
     (Other_object (PyUnicode (ascii ''main''))) Py_NE
     = (Inr Py_NotImplemented, example_memory)"
  using richcompare_other_type
      [of "Other_object (PyUnicode (ascii ''main''))" example_memory "\<lparr>sym = 0, prog = 7\<rparr>"]
  by simp

text \<open>
  C4. For two symbol objects, each of the four ordering comparisons (less-than,
  less-or-equal, greater-than, greater-or-equal) returns \<^verbatim>\<open>NotImplemented\<close>: not a
  Boolean, and not an error.
\<close>

theorem richcompare_ordering:
  "op \<in> {Py_LT, Py_LE, Py_GT, Py_GE} \<Longrightarrow>
   Symbol_richcompare h a (Symbol_instance b) op = (Inr Py_NotImplemented, h)"
  by (auto simp: Symbol_richcompare_def Py_LT_def Py_LE_def Py_GT_def Py_GE_def Py_EQ_def
        Py_NE_def)

theorem richcompare_ordering_witness:
  "Py_LT \<in> {Py_LT, Py_LE, Py_GT, Py_GE} \<and>
   Symbol_richcompare example_memory \<lparr>sym = 0, prog = 7\<rparr>
     (Symbol_instance \<lparr>sym = 1, prog = 7\<rparr>) Py_LT
     = (Inr Py_NotImplemented, example_memory)"
  using richcompare_ordering
      [of Py_LT example_memory "\<lparr>sym = 0, prog = 7\<rparr>" "\<lparr>sym = 1, prog = 7\<rparr>"]
  by simp

text \<open>
  C5, as amended. For a record whose name is text and whose binding and kind codes are
  variants of their classes, \<^verbatim>\<open>Symbol_repr\<close> returns exactly
  \<^verbatim>\<open>Symbol(name=<repr of the name>, address=0x<hex>, size=0x<hex>, binding=<repr of the binding member>, kind=<repr of the kind member>)\<close>,
  where the \<^verbatim>\<open>repr\<close> of a plain name is the name in single quotes and the \<^verbatim>\<open>repr\<close> of
  an enumeration member is \<^verbatim>\<open><Class.NAME: code>\<close>. For the record
  \<^verbatim>\<open>{name="main", address=0x1000, size=0x50, binding=GLOBAL, kind=FUNC}\<close>, with
  GLOBAL coded 2 in \<^verbatim>\<open>SymbolBinding\<close> and FUNC coded 3 in \<^verbatim>\<open>SymbolKind\<close>, it returns
  \<^verbatim>\<open>Symbol(name='main', address=0x1000, size=0x50, binding=<SymbolBinding.GLOBAL: 2>, kind=<SymbolKind.FUNC: 3>)\<close>.
\<close>

theorem Symbol_repr_format:
  "(is_text (drgn_symbol_name (h (sym self))) cps \<and>
    variant_of (SymbolBinding_class rt) (drgn_symbol_binding (h (sym self))) = Some bn \<and>
    variant_of (SymbolKind_class rt) (drgn_symbol_kind (h (sym self))) = Some kn \<longrightarrow>
    Symbol_repr rt h self =
      (Inr (PyUnicode
         (ascii ''Symbol(name='' @ unicode_repr rt cps @
          ascii '', address=0x'' @
          ascii (hex_of_nat (unat (drgn_symbol_address (h (sym self))))) @
          ascii '', size=0x'' @ ascii (hex_of_nat (unat (drgn_symbol_size (h (sym self))))) @
          ascii '', binding='' @
          ascii (enum_repr (enum_name (SymbolBinding_class rt)) bn
                   (uint (drgn_symbol_binding (h (sym self))))) @
          ascii '', kind='' @
          ascii (enum_repr (enum_name (SymbolKind_class rt)) kn
                   (uint (drgn_symbol_kind (h (sym self))))) @
          ascii '')'')), h)) \<and>
   (plain_name cps \<longrightarrow> unicode_repr rt cps = ascii [CHR 0x27] @ cps @ ascii [CHR 0x27]) \<and>
   enum_repr c n v = ''<'' @ c @ ''.'' @ n @ '': '' @ long_repr v @ ''>'' \<and>
   (h (sym self) =
      \<lparr>drgn_symbol_name = ''main'', drgn_symbol_address = 0x1000, drgn_symbol_size = 0x50,
       drgn_symbol_binding = 2, drgn_symbol_kind = 3\<rparr> \<and>
    enum_name (SymbolBinding_class rt) = ''SymbolBinding'' \<and>
    enum_name (SymbolKind_class rt) = ''SymbolKind'' \<and>
    variant_of (SymbolBinding_class rt) 2 = Some ''GLOBAL'' \<and>
    variant_of (SymbolKind_class rt) 3 = Some ''FUNC'' \<longrightarrow>
    Symbol_repr rt h self =
      (Inr (PyUnicode
         (ascii ''Symbol(name='main', address=0x1000, size=0x50, binding=<SymbolBinding.GLOBAL: 2>, kind=<SymbolKind.FUNC: 3>)'')),
       h))"
proof -
  have general: "Symbol_repr rt h self =
      (Inr (PyUnicode
         (ascii ''Symbol(name='' @ unicode_repr rt cps @
          ascii '', address=0x'' @
          ascii (hex_of_nat (unat (drgn_symbol_address (h (sym self))))) @
          ascii '', size=0x'' @ ascii (hex_of_nat (unat (drgn_symbol_size (h (sym self))))) @
          ascii '', binding='' @
          ascii (enum_repr (enum_name (SymbolBinding_class rt)) bn
                   (uint (drgn_symbol_binding (h (sym self))))) @
          ascii '', kind='' @
          ascii (enum_repr (enum_name (SymbolKind_class rt)) kn
                   (uint (drgn_symbol_kind (h (sym self))))) @
          ascii '')'')), h)"
    if "is_text (drgn_symbol_name (h (sym self))) cps"
      "variant_of (SymbolBinding_class rt) (drgn_symbol_binding (h (sym self))) = Some bn"
      "variant_of (SymbolKind_class rt) (drgn_symbol_kind (h (sym self))) = Some kn"
    using that by (rule Symbol_repr_text)
  have plain: "unicode_repr rt cps = ascii [CHR 0x27] @ cps @ ascii [CHR 0x27]"
    if "plain_name cps"
    using unicode_repr_plain [OF that, of rt] by (simp add: ascii_def)
  have enum: "enum_repr c n v = ''<'' @ c @ ''.'' @ n @ '': '' @ long_repr v @ ''>''"
    by (simp add: enum_repr_def)
  have main: "Symbol_repr rt h self =
      (Inr (PyUnicode
         (ascii ''Symbol(name='main', address=0x1000, size=0x50, binding=<SymbolBinding.GLOBAL: 2>, kind=<SymbolKind.FUNC: 3>)'')),
       h)"
    if r: "h (sym self) =
        \<lparr>drgn_symbol_name = ''main'', drgn_symbol_address = 0x1000, drgn_symbol_size = 0x50,
         drgn_symbol_binding = 2, drgn_symbol_kind = 3\<rparr>"
      and nb: "enum_name (SymbolBinding_class rt) = ''SymbolBinding''"
      and nk: "enum_name (SymbolKind_class rt) = ''SymbolKind''"
      and vb: "variant_of (SymbolBinding_class rt) 2 = Some ''GLOBAL''"
      and vk: "variant_of (SymbolKind_class rt) 3 = Some ''FUNC''"
  proof -
    have t: "is_text (drgn_symbol_name (h (sym self))) (ascii ''main'')"
      by (simp add: r is_text_def ascii_def scalar_value_def utf8_encode_def
            utf8_encode_cp_def)
    have p: "plain_name (ascii ''main'')"
      by (simp add: plain_name_def ascii_def)
    have q: "unicode_repr rt [109, 97, 105, 110] = [39, 109, 97, 105, 110, 39]"
      using unicode_repr_plain [OF p, of rt] by (simp add: ascii_def)
    have hx: "hex_of_nat 4096 = ''1000''" "hex_of_nat 80 = ''50''"
      by (simp_all add: hex_of_nat.simps hex_digit_def)
    have dc: "long_repr 2 = ''2''" "long_repr 3 = ''3''"
      by (simp_all add: long_repr_def dec_of_nat.simps)
    from vb vk have
      "variant_of (SymbolBinding_class rt) (drgn_symbol_binding (h (sym self))) = Some ''GLOBAL''"
      "variant_of (SymbolKind_class rt) (drgn_symbol_kind (h (sym self))) = Some ''FUNC''"
      by (simp_all add: r)
    from Symbol_repr_text [where h = h and self = self, OF t this] show ?thesis
      by (simp add: q r hx dc nb nk enum_repr_def ascii_def)
  qed
  from general plain enum main show ?thesis by blast
qed

text \<open>The two records of the scenario, displayed by the example runtime.\<close>

theorem Symbol_repr_format_witness:
  "Symbol_repr example_runtime example_memory \<lparr>sym = 0, prog = 7\<rparr> =
     (Inr (PyUnicode
        (ascii ''Symbol(name='main', address=0x1000, size=0x50, binding=<SymbolBinding.GLOBAL: 2>, kind=<SymbolKind.FUNC: 3>)'')),
      example_memory) \<and>
   Symbol_repr example_runtime example_memory \<lparr>sym = 1, prog = 7\<rparr> =
     (Inr (PyUnicode
        (ascii ''Symbol(name='helper', address=0x1050, size=0x20, binding=<SymbolBinding.LOCAL: 1>, kind=<SymbolKind.FUNC: 3>)'')),
      example_memory)"
proof -
  have m: "example_memory (sym \<lparr>sym = 0, prog = 7\<rparr>) =
      \<lparr>drgn_symbol_name = ''main'', drgn_symbol_address = 0x1000, drgn_symbol_size = 0x50,
       drgn_symbol_binding = 2, drgn_symbol_kind = 3\<rparr>"
    by (simp add: example_memory_def example_main_def)
  have n: "enum_name (SymbolBinding_class example_runtime) = ''SymbolBinding''"
    "enum_name (SymbolKind_class example_runtime) = ''SymbolKind''"
    by (simp_all add: example_runtime_def)
  have v: "variant_of (SymbolBinding_class example_runtime) 2 = Some ''GLOBAL''"
    "variant_of (SymbolKind_class example_runtime) 3 = Some ''FUNC''"
    "variant_of (SymbolBinding_class example_runtime) 1 = Some ''LOCAL''"
    by (simp_all add: variant_of_def example_runtime_def)
  have t: "is_text ''helper'' (ascii ''helper'')"
    by (simp add: is_text_def ascii_def scalar_value_def utf8_encode_def utf8_encode_cp_def)
  have p: "plain_name (ascii ''helper'')"
    by (simp add: plain_name_def ascii_def)
  have hx: "hex_of_nat 4176 = ''1050''" "hex_of_nat 32 = ''20''"
    by (simp_all add: hex_of_nat.simps hex_digit_def)
  have dc: "long_repr 1 = ''1''" "long_repr 3 = ''3''"
    by (simp_all add: long_repr_def dec_of_nat.simps)
  from m n v(1,2)
    Symbol_repr_format [of example_memory "\<lparr>sym = 0, prog = 7\<rparr>" "[]" example_runtime
      "''x''" "''x''" "''x''" "''x''" 0]
  have first: "Symbol_repr example_runtime example_memory \<lparr>sym = 0, prog = 7\<rparr> =
     (Inr (PyUnicode
        (ascii ''Symbol(name='main', address=0x1000, size=0x50, binding=<SymbolBinding.GLOBAL: 2>, kind=<SymbolKind.FUNC: 3>)'')),
      example_memory)"
    by blast
  from t v(2,3) p
    Symbol_repr_format [of example_memory "\<lparr>sym = 1, prog = 7\<rparr>" "ascii ''helper''"
      example_runtime "''LOCAL''" "''FUNC''" "''x''" "''x''" 0]
  have second: "Symbol_repr example_runtime example_memory \<lparr>sym = 1, prog = 7\<rparr> =
     (Inr (PyUnicode
        (ascii ''Symbol(name='helper', address=0x1050, size=0x20, binding=<SymbolBinding.LOCAL: 1>, kind=<SymbolKind.FUNC: 3>)'')),
      example_memory)"
    by (simp add: example_memory_def example_helper_def hx dc n enum_repr_def ascii_def)
  from first second show ?thesis by simp
qed

text \<open>
  The claim as stated fails on the members: \<^verbatim>\<open>%R\<close> prints \<^verbatim>\<open><SymbolBinding.GLOBAL: 2>\<close>
  and \<^verbatim>\<open><SymbolKind.FUNC: 3>\<close>, so the display string of \<open>main\<close> is not the string with
  \<^verbatim>\<open>binding=GLOBAL, kind=FUNC\<close>.
\<close>

theorem Symbol_repr_bare_names_counterexample:
  "fst (Symbol_repr example_runtime example_memory \<lparr>sym = 0, prog = 7\<rparr>) \<noteq>
   Inr (PyUnicode
     (ascii ''Symbol(name='main', address=0x1000, size=0x50, binding=GLOBAL, kind=FUNC)''))"
proof -
  have t: "is_text (drgn_symbol_name (example_memory (sym \<lparr>sym = 0, prog = 7\<rparr>)))
      (ascii ''main'')"
    by (simp add: is_text_def ascii_def scalar_value_def utf8_encode_def utf8_encode_cp_def
          example_memory_def example_main_def)
  have v: "variant_of (SymbolBinding_class example_runtime)
        (drgn_symbol_binding (example_memory (sym \<lparr>sym = 0, prog = 7\<rparr>))) = Some ''GLOBAL''"
    "variant_of (SymbolKind_class example_runtime)
        (drgn_symbol_kind (example_memory (sym \<lparr>sym = 0, prog = 7\<rparr>))) = Some ''FUNC''"
    by (simp_all add: variant_of_def example_runtime_def example_memory_def example_main_def)
  have p: "plain_name (ascii ''main'')"
    by (simp add: plain_name_def ascii_def)
  have q: "unicode_repr example_runtime [109, 97, 105, 110] = [39, 109, 97, 105, 110, 39]"
    using unicode_repr_plain [OF p, of example_runtime] by (simp add: ascii_def)
  have hx: "hex_of_nat 4096 = ''1000''" "hex_of_nat 80 = ''50''"
    by (simp_all add: hex_of_nat.simps hex_digit_def)
  from Symbol_repr_text
      [where h = example_memory and self = "\<lparr>sym = 0, prog = 7\<rparr>", OF t v]
  show ?thesis
    by (simp add: q hx enum_repr_def ascii_def example_memory_def example_main_def
          example_runtime_def)
qed




text \<open>
  C7. Each accessor returns the field of the record behind the object that carries its
  name: \<^verbatim>\<open>address\<close> and \<^verbatim>\<open>size\<close> as the Python \<^verbatim>\<open>int\<close> with the value of the unsigned 64-bit
  field, between \<open>0\<close> and \<open>2^64 - 1\<close>; \<^verbatim>\<open>name\<close>, for a record whose stored bytes are the
  UTF-8 form of a text, as the \<^verbatim>\<open>str\<close> of that text, and whenever it returns a \<^verbatim>\<open>str\<close>
  the stored bytes are its UTF-8 form; \<^verbatim>\<open>binding\<close> and \<^verbatim>\<open>kind\<close>, for a code that is a
  variant of its class, as the member of the class whose value is the stored code.
\<close>

theorem accessors_return_fields:
  "map fst (Symbol_getset rt) = [''name'', ''address'', ''size'', ''binding'', ''kind''] \<and>
   map snd (Symbol_getset rt) =
     [Symbol_get_name, Symbol_get_address, Symbol_get_size, Symbol_get_binding rt,
      Symbol_get_kind rt] \<and>
   (list_all scalar_value cps \<and>
    map of_char (drgn_symbol_name (h (sym self))) = utf8_encode cps \<longrightarrow>
      Symbol_get_name h self = (Inr (PyUnicode cps), h)) \<and>
   (\<forall>t. fst (Symbol_get_name h self) = Inr (PyUnicode t) \<longrightarrow>
      utf8_encode t = map of_char (drgn_symbol_name (h (sym self)))) \<and>
   Symbol_get_address h self = (Inr (PyLong (uint (drgn_symbol_address (h (sym self))))), h) \<and>
   0 \<le> uint (drgn_symbol_address (h (sym self))) \<and>
   uint (drgn_symbol_address (h (sym self))) < 2 ^ 64 \<and>
   Symbol_get_size h self = (Inr (PyLong (uint (drgn_symbol_size (h (sym self))))), h) \<and>
   0 \<le> uint (drgn_symbol_size (h (sym self))) \<and>
   uint (drgn_symbol_size (h (sym self))) < 2 ^ 64 \<and>
   (variant_of (SymbolBinding_class rt) (drgn_symbol_binding (h (sym self))) = Some bn \<longrightarrow>
      Symbol_get_binding rt h self =
        (Inr (PyEnum (enum_name (SymbolBinding_class rt)) bn
                (uint (drgn_symbol_binding (h (sym self))))), h) \<and>
      (bn, uint (drgn_symbol_binding (h (sym self))))
        \<in> set (enum_members (SymbolBinding_class rt))) \<and>
   (variant_of (SymbolKind_class rt) (drgn_symbol_kind (h (sym self))) = Some kn \<longrightarrow>
      Symbol_get_kind rt h self =
        (Inr (PyEnum (enum_name (SymbolKind_class rt)) kn
                (uint (drgn_symbol_kind (h (sym self))))), h) \<and>
      (kn, uint (drgn_symbol_kind (h (sym self))))
        \<in> set (enum_members (SymbolKind_class rt)))"
proof -
  have table: "map fst (Symbol_getset rt) =
      [''name'', ''address'', ''size'', ''binding'', ''kind'']"
    "map snd (Symbol_getset rt) =
      [Symbol_get_name, Symbol_get_address, Symbol_get_size, Symbol_get_binding rt,
       Symbol_get_kind rt]"
    by (simp_all add: Symbol_getset_def)
  have name: "Symbol_get_name h self = (Inr (PyUnicode cps), h)"
    if "list_all scalar_value cps"
      "map of_char (drgn_symbol_name (h (sym self))) = utf8_encode cps"
  proof -
    from that have "is_text (drgn_symbol_name (h (sym self))) cps"
      by (simp add: is_text_def)
    then show ?thesis
      by (simp add: Symbol_get_name_def PyUnicode_FromString_text)
  qed
  have encoded: "utf8_encode t = map of_char (drgn_symbol_name (h (sym self)))"
    if "fst (Symbol_get_name h self) = Inr (PyUnicode t)" for t
  proof -
    from that have "utf8_decode (map of_char (drgn_symbol_name (h (sym self)))) = Some t"
      by (simp add: Symbol_get_name_def PyUnicode_FromString_def split: option.splits)
    then show ?thesis by (rule utf8_roundtrip)
  qed
  have address:
    "Symbol_get_address h self = (Inr (PyLong (uint (drgn_symbol_address (h (sym self))))), h)"
    "Symbol_get_size h self = (Inr (PyLong (uint (drgn_symbol_size (h (sym self))))), h)"
    by (simp_all add: Symbol_get_address_def Symbol_get_size_def PyLong_FromUint64_def)
  have range: "0 \<le> uint (drgn_symbol_address (h (sym self)))"
    "uint (drgn_symbol_address (h (sym self))) < 2 ^ 64"
    "0 \<le> uint (drgn_symbol_size (h (sym self)))"
    "uint (drgn_symbol_size (h (sym self))) < 2 ^ 64"
    using uint_bounded [of "drgn_symbol_address (h (sym self))"]
      uint_bounded [of "drgn_symbol_size (h (sym self))"]
    by simp_all
  have binding: "Symbol_get_binding rt h self =
        (Inr (PyEnum (enum_name (SymbolBinding_class rt)) bn
                (uint (drgn_symbol_binding (h (sym self))))), h) \<and>
      (bn, uint (drgn_symbol_binding (h (sym self))))
        \<in> set (enum_members (SymbolBinding_class rt))"
    if "variant_of (SymbolBinding_class rt) (drgn_symbol_binding (h (sym self))) = Some bn"
    using CallFunction_variant [OF that] by (simp add: Symbol_get_binding_def)
  have kind: "Symbol_get_kind rt h self =
        (Inr (PyEnum (enum_name (SymbolKind_class rt)) kn
                (uint (drgn_symbol_kind (h (sym self))))), h) \<and>
      (kn, uint (drgn_symbol_kind (h (sym self))))
        \<in> set (enum_members (SymbolKind_class rt))"
    if "variant_of (SymbolKind_class rt) (drgn_symbol_kind (h (sym self))) = Some kn"
    using CallFunction_variant [OF that] by (simp add: Symbol_get_kind_def)
  show ?thesis
    using table name encoded address range binding kind
    by (intro conjI impI allI) (assumption | blast)+
qed

text \<open>
  The five attributes of the record at 3, whose name takes two, three and four bytes
  per character, read through the example runtime.
\<close>

theorem accessors_return_fields_witness:
  "Symbol_get_name example_memory_wide \<lparr>sym = 3, prog = 7\<rparr> =
     (Inr (PyUnicode [0xE9, 0x20AC, 0x1F600]), example_memory_wide) \<and>
   Symbol_get_address example_memory_wide \<lparr>sym = 3, prog = 7\<rparr> =
     (Inr (PyLong 0x2000), example_memory_wide) \<and>
   Symbol_get_size example_memory_wide \<lparr>sym = 3, prog = 7\<rparr> =
     (Inr (PyLong 8), example_memory_wide) \<and>
   Symbol_get_binding example_runtime example_memory_wide \<lparr>sym = 3, prog = 7\<rparr> =
     (Inr (PyEnum ''SymbolBinding'' ''GLOBAL'' 2), example_memory_wide) \<and>
   Symbol_get_kind example_runtime example_memory_wide \<lparr>sym = 3, prog = 7\<rparr> =
     (Inr (PyEnum ''SymbolKind'' ''OBJECT'' 2), example_memory_wide)"
proof -
  let ?self = "\<lparr>sym = 3, prog = 7\<rparr>"
  note fields =
    accessors_return_fields [of example_runtime "[0xE9, 0x20AC, 0x1F600]" example_memory_wide
      ?self "''GLOBAL''" "''OBJECT''"]
  have s: "list_all scalar_value [0xE9, 0x20AC, 0x1F600]"
    by (simp add: scalar_value_def)
  have e: "map of_char (drgn_symbol_name (example_memory_wide (sym ?self))) =
      utf8_encode [0xE9, 0x20AC, 0x1F600]"
    by (simp add: example_memory_wide_def example_unicode_def utf8_encode_def
          utf8_encode_cp_def)
  have v: "variant_of (SymbolBinding_class example_runtime)
        (drgn_symbol_binding (example_memory_wide (sym ?self))) = Some ''GLOBAL''"
    "variant_of (SymbolKind_class example_runtime)
        (drgn_symbol_kind (example_memory_wide (sym ?self))) = Some ''OBJECT''"
    by (simp_all add: example_memory_wide_def variant_of_def example_runtime_def
          example_unicode_def)
  have name: "Symbol_get_name example_memory_wide ?self =
      (Inr (PyUnicode [0xE9, 0x20AC, 0x1F600]), example_memory_wide)"
    by (rule fields [THEN conjunct2, THEN conjunct2, THEN conjunct1, THEN mp, OF conjI [OF s e]])
  have "Symbol_get_address example_memory_wide ?self =
      (Inr (PyLong (uint (drgn_symbol_address (example_memory_wide (sym ?self))))),
       example_memory_wide)"
    by (rule fields [THEN conjunct2, THEN conjunct2, THEN conjunct2, THEN conjunct2, THEN conjunct1])
  then have address: "Symbol_get_address example_memory_wide ?self =
      (Inr (PyLong 0x2000), example_memory_wide)"
    by (simp add: example_memory_wide_def example_unicode_def)
  have "Symbol_get_size example_memory_wide ?self =
      (Inr (PyLong (uint (drgn_symbol_size (example_memory_wide (sym ?self))))),
       example_memory_wide)"
    by (rule fields [THEN conjunct2, THEN conjunct2, THEN conjunct2, THEN conjunct2, THEN conjunct2, THEN conjunct2, THEN conjunct2, THEN conjunct1])
  then have size: "Symbol_get_size example_memory_wide ?self =
      (Inr (PyLong 8), example_memory_wide)"
    by (simp add: example_memory_wide_def example_unicode_def)
  from fields [THEN conjunct2, THEN conjunct2, THEN conjunct2, THEN conjunct2, THEN conjunct2, THEN conjunct2, THEN conjunct2, THEN conjunct2, THEN conjunct2, THEN conjunct2, THEN conjunct1, THEN mp, OF v(1)]
  have binding: "Symbol_get_binding example_runtime example_memory_wide ?self =
      (Inr (PyEnum ''SymbolBinding'' ''GLOBAL'' 2), example_memory_wide)"
    by (simp add: example_memory_wide_def example_unicode_def example_runtime_def)
  from fields [THEN conjunct2, THEN conjunct2, THEN conjunct2, THEN conjunct2, THEN conjunct2, THEN conjunct2, THEN conjunct2, THEN conjunct2, THEN conjunct2, THEN conjunct2, THEN conjunct2, THEN mp, OF v(2)]
  have kind: "Symbol_get_kind example_runtime example_memory_wide ?self =
      (Inr (PyEnum ''SymbolKind'' ''OBJECT'' 2), example_memory_wide)"
    by (simp add: example_memory_wide_def example_unicode_def example_runtime_def)
  from name address size binding kind show ?thesis by (intro conjI)
qed

text \<open>
  C8. No accessor, no call of \<^verbatim>\<open>Symbol_repr\<close> and no comparison changes the heap of
  records: after the operation every record has the five field values it had before.
  The display string is computed from the record at each call: it is a function of the
  record the object points to, so two calls give the same string and a wrapper of a
  record with the same fields gives it too.
\<close>

theorem operations_do_not_mutate:
  "snd (Symbol_get_name h s) = h \<and>
   snd (Symbol_get_address h s) = h \<and>
   snd (Symbol_get_size h s) = h \<and>
   snd (Symbol_get_binding rt h s) = h \<and>
   snd (Symbol_get_kind rt h s) = h \<and>
   (\<forall>g \<in> set (map snd (Symbol_getset rt)). snd (g h s) = h) \<and>
   snd (Symbol_repr rt h s) = h \<and>
   snd (Symbol_richcompare h s other Py_EQ) = h \<and>
   snd (Symbol_richcompare h s other Py_NE) = h \<and>
   snd (Symbol_richcompare h s other op) = h \<and>
   fst (Symbol_repr rt (snd (Symbol_repr rt h s)) s) = fst (Symbol_repr rt h s) \<and>
   (h (sym s) = h' (sym s') \<longrightarrow> fst (Symbol_repr rt h s) = fst (Symbol_repr rt h' s'))"
proof -
  have getters: "snd (Symbol_get_name h s) = h" "snd (Symbol_get_address h s) = h"
    "snd (Symbol_get_size h s) = h" "snd (Symbol_get_binding rt h s) = h"
    "snd (Symbol_get_kind rt h s) = h"
    by (simp_all add: Symbol_get_name_def Symbol_get_address_def Symbol_get_size_def
          Symbol_get_binding_def Symbol_get_kind_def)
  then have table: "\<forall>g \<in> set (map snd (Symbol_getset rt)). snd (g h s) = h"
    by (simp add: Symbol_getset_def)
  have again: "fst (Symbol_repr rt (snd (Symbol_repr rt h s)) s) = fst (Symbol_repr rt h s)"
    by (simp add: Symbol_repr_frame)
  have "h (sym s) = h' (sym s') \<longrightarrow> fst (Symbol_repr rt h s) = fst (Symbol_repr rt h' s')"
    using Symbol_repr_depends [of h s h' s' rt] by blast
  with getters table again show ?thesis
    by (simp add: Symbol_repr_frame Symbol_richcompare_frame)
qed

theorem operations_do_not_mutate_witness:
  "snd (Symbol_repr example_runtime example_memory \<lparr>sym = 0, prog = 7\<rparr>) = example_memory \<and>
   snd (Symbol_richcompare example_memory \<lparr>sym = 0, prog = 7\<rparr>
          (Symbol_instance \<lparr>sym = 1, prog = 7\<rparr>) Py_EQ) = example_memory \<and>
   fst (Symbol_repr example_runtime example_memory \<lparr>sym = 0, prog = 7\<rparr>) =
   fst (Symbol_repr example_runtime example_memory \<lparr>sym = 2, prog = 8\<rparr>)"
proof -
  have "example_memory (sym \<lparr>sym = 0, prog = 7\<rparr>) = example_memory (sym \<lparr>sym = 2, prog = 8\<rparr>)"
    by (simp add: example_memory_def)
  with operations_do_not_mutate [of example_memory "\<lparr>sym = 0, prog = 7\<rparr>" example_runtime
      "Symbol_instance \<lparr>sym = 1, prog = 7\<rparr>" Py_EQ example_memory "\<lparr>sym = 2, prog = 8\<rparr>"]
  show ?thesis by blast
qed

text \<open>
  C9. For two symbol objects the inequality check returns the negation of what the
  equality check returns: both return a Boolean, and the two Booleans differ.
\<close>

theorem richcompare_NE_negates_EQ:
  "\<exists>e. Symbol_richcompare h a (Symbol_instance b) Py_EQ = (Inr (Py_Bool e), h) \<and>
        Symbol_richcompare h a (Symbol_instance b) Py_NE = (Inr (Py_Bool (\<not> e)), h)"
  by (simp add: Symbol_richcompare_EQ Symbol_richcompare_NE)

theorem richcompare_NE_negates_EQ_witness:
  "Symbol_richcompare example_memory \<lparr>sym = 0, prog = 7\<rparr>
     (Symbol_instance \<lparr>sym = 1, prog = 7\<rparr>) Py_EQ = (Inr (Py_Bool False), example_memory) \<and>
   Symbol_richcompare example_memory \<lparr>sym = 0, prog = 7\<rparr>
     (Symbol_instance \<lparr>sym = 1, prog = 7\<rparr>) Py_NE = (Inr (Py_Bool True), example_memory)"
  using richcompare_NE_negates_EQ
      [of example_memory "\<lparr>sym = 0, prog = 7\<rparr>" "\<lparr>sym = 1, prog = 7\<rparr>"]
  by (simp add: Symbol_richcompare_EQ Symbol_richcompare_NE drgn_symbol_eq_def
        example_memory_def example_main_def example_helper_def)

text \<open>
  C10. For every unsigned 64-bit value, \<^verbatim>\<open>"0x%" PRIx64\<close> produces \<^verbatim>\<open>0x\<close> followed by at
  least one and at most 16 hexadecimal digits: at most 18 characters, 19 bytes with the
  terminating NUL. So each \<^verbatim>\<open>sprintf\<close> into \<^verbatim>\<open>char[19]\<close> stays inside its buffer, and
  \<^verbatim>\<open>Symbol_repr\<close> never overflows one.
\<close>

theorem sprintf_fits_buffer:
  "format_0x_PRIx64 v = ''0x'' @ hex_of_nat (unat v) \<and>
   1 \<le> length (hex_of_nat (unat v)) \<and>
   length (hex_of_nat (unat v)) \<le> 16 \<and>
   length (format_0x_PRIx64 v) \<le> 18 \<and>
   length (format_0x_PRIx64 v) + 1 \<le> 19 \<and>
   sprintf_0x_PRIx64 19 v = Inr (format_0x_PRIx64 v) \<and>
   fst (Symbol_repr rt h self) \<noteq> Inl BufferOverflow"
proof -
  have "hex_of_nat (unat v) \<noteq> []" by (rule hex_of_nat_nonempty)
  then have "1 \<le> length (hex_of_nat (unat v))" by (cases "hex_of_nat (unat v)") simp_all
  moreover have "length (hex_of_nat (unat v)) \<le> 16" by (rule hex_of_word_length)
  ultimately show ?thesis
    by (simp add: format_0x_PRIx64_def sprintf_19 [unfolded format_0x_PRIx64_def]
          Symbol_repr_no_overflow)
qed

text \<open>The largest value fills the buffer exactly; a buffer of 18 bytes would overflow.\<close>

theorem sprintf_fits_buffer_witness:
  "format_0x_PRIx64 0xffffffffffffffff = ''0xffffffffffffffff'' \<and>
   length (format_0x_PRIx64 0xffffffffffffffff) + 1 = 19 \<and>
   sprintf_0x_PRIx64 19 0xffffffffffffffff = Inr ''0xffffffffffffffff'' \<and>
   sprintf_0x_PRIx64 18 0xffffffffffffffff = Inl BufferOverflow"
  using sprintf_fits_buffer [of "0xffffffffffffffff" example_runtime example_memory
      "\<lparr>sym = 0, prog = 7\<rparr>"]
  by (simp add: sprintf_0x_PRIx64_def format_0x_PRIx64_def hex_of_nat.simps hex_digit_def)

end
